theory Spec2Isabelle
  imports Main "HOL-Library.Multiset"
begin

section \<open>Python values used by make\_feed.py\<close>

text \<open>
  A \<open>str\<close> is a \<open>string\<close>: the list of its code points, which are below 256
  here (\<open>char\<close> has 8 bits). A slice such as \<open>[:80]\<close> counts code points.
  Exceptions are values. Every \<open>raise\<close> of the script and every exception of a
  library call that the script can meet is a constructor; the string is \<open>str(e)\<close>,
  which the warning line of \<open>main\<close> prints.
\<close>

datatype error =
    ValueError string
  | TypeError string
  | RequestException string
  | JSONDecodeError string
  | SelectorSyntaxError string
  | ParserError string

fun str_of_error :: "error \<Rightarrow> string" where
  "str_of_error (ValueError m) = m"
| "str_of_error (TypeError m) = m"
| "str_of_error (RequestException m) = m"
| "str_of_error (JSONDecodeError m) = m"
| "str_of_error (SelectorSyntaxError m) = m"
| "str_of_error (ParserError m) = m"

text \<open>Sequencing of calls that may raise: the first exception leaves the block.\<close>

definition bindE :: "error + 'a \<Rightarrow> ('a \<Rightarrow> error + 'b) \<Rightarrow> error + 'b" where
  "bindE m f = (case m of Inl e \<Rightarrow> Inl e | Inr x \<Rightarrow> f x)"

text \<open>
  Truthiness of a value that is \<open>None\<close> or a \<open>str\<close>, and Python's \<open>a or b\<close> on
  such values.
\<close>

definition truthy :: "string option \<Rightarrow> bool" where
  "truthy v = (case v of None \<Rightarrow> False | Some s \<Rightarrow> s \<noteq> [])"

definition py_or :: "string option \<Rightarrow> string option \<Rightarrow> string option" where
  "py_or a b = (if truthy a then a else b)"

definition or_str :: "string option \<Rightarrow> string \<Rightarrow> string" where
  "or_str a d = (case a of None \<Rightarrow> d | Some s \<Rightarrow> if s \<noteq> [] then s else d)"

definition py_str :: "string option \<Rightarrow> string" where
  "py_str v = (case v of None \<Rightarrow> ''None'' | Some s \<Rightarrow> s)"

text \<open>
  \<open>str.strip()\<close>: whitespace is removed at both ends. The code points below 256 for
  which \<open>str.isspace\<close> holds are U+0009 to U+000D, U+001C to U+0020, U+0085 and U+00A0.
\<close>

definition is_space :: "char \<Rightarrow> bool" where
  "is_space c = (c \<in> set [CHR 0x09, CHR 0x0A, CHR 0x0B, CHR 0x0C, CHR 0x0D,
                            CHR 0x1C, CHR 0x1D, CHR 0x1E, CHR 0x1F, CHR 0x20,
                            CHR 0x85, CHR 0xA0])"

definition strip :: "string \<Rightarrow> string" where
  "strip s = rev (dropWhile is_space (rev (dropWhile is_space s)))"

fun join :: "string \<Rightarrow> string list \<Rightarrow> string" where
  "join sep [] = []"
| "join sep [s] = s"
| "join sep (s # t # ts) = s @ sep @ join sep (t # ts)"

subsection \<open>datetime\<close>

text \<open>
  A \<open>datetime\<close> is its wall-clock reading (microseconds on the proleptic calendar) and
  its \<open>tzinfo\<close>: \<open>None\<close> for a naive value, the UTC offset for an aware one.
  Two naive values compare by wall clock, two aware values by UTC instant, and
  \<open>a < b\<close> on a naive and an aware value raises \<open>TypeError\<close>.
\<close>

record datetime =
  wall :: int
  tzinfo :: "int option"

definition utc_instant :: "datetime \<Rightarrow> int" where
  "utc_instant d = (case tzinfo d of None \<Rightarrow> wall d | Some off \<Rightarrow> wall d - off)"

definition naive_aware_error :: error where
  "naive_aware_error =
     TypeError (''can'' @ [CHR 0x27] @ ''t compare offset-naive and offset-aware datetimes'')"

definition dt_less :: "datetime \<Rightarrow> datetime \<Rightarrow> error + bool" where
  "dt_less a b =
     (if (tzinfo a = None) = (tzinfo b = None) then Inr (utc_instant a < utc_instant b)
      else Inl naive_aware_error)"

subsection \<open>The parsed document (BeautifulSoup)\<close>

text \<open>
  A parsed document is a tree of tags and strings. A tag has its namespace prefix (none
  in an HTML document), its name, its attributes and its children. \<open>find\<close> and
  \<open>find_all\<close> search the descendants of a tag in document order; a name given as a
  string matches a tag with that name, whatever its prefix, and a tag whose prefix,
  a colon and name read as that string. \<open>get_text(sep, strip=True)\<close> strips every
  string below the tag, leaves out the empty ones and joins the rest with \<open>sep\<close>.
\<close>

datatype node =
    NavigableString string
  | Tag "string option" string "(string \<times> string) list" "node list"

fun descendants :: "node \<Rightarrow> node list" where
  "descendants (NavigableString s) = []"
| "descendants (Tag p n a cs) = concat (map (\<lambda>c. c # descendants c) cs)"

fun tag_named :: "string list \<Rightarrow> node \<Rightarrow> bool" where
  "tag_named ns (NavigableString s) = False"
| "tag_named ns (Tag p n a cs) =
     (n \<in> set ns \<or> (case p of None \<Rightarrow> False | Some pre \<Rightarrow> pre @ '':'' @ n \<in> set ns))"

fun tag_get :: "node \<Rightarrow> string \<Rightarrow> string option" where
  "tag_get (NavigableString s) k = None"
| "tag_get (Tag p n a cs) k = map_of a k"

definition find_all :: "node \<Rightarrow> string list \<Rightarrow> node list" where
  "find_all e ns = filter (tag_named ns) (descendants e)"

definition find :: "node \<Rightarrow> string list \<Rightarrow> node option" where
  "find e ns = (case find_all e ns of [] \<Rightarrow> None | t # _ \<Rightarrow> Some t)"

definition find_rel :: "node \<Rightarrow> string \<Rightarrow> string \<Rightarrow> node option" where
  "find_rel e n r =
     (case filter (\<lambda>t. tag_get t ''rel'' = Some r) (find_all e [n]) of
        [] \<Rightarrow> None | t # _ \<Rightarrow> Some t)"

fun all_strings :: "node \<Rightarrow> string list" where
  "all_strings (NavigableString s) = [s]"
| "all_strings (Tag p n a cs) = concat (map all_strings cs)"

definition get_text :: "string \<Rightarrow> node \<Rightarrow> string" where
  "get_text sep t = join sep (filter (\<lambda>s. s \<noteq> []) (map strip (all_strings t)))"

subsection \<open>Items, sources, configuration, persisted state\<close>

record item =
  title :: string
  link :: string
  guid :: string
  summary :: string
  date :: datetime

text \<open>
  One entry of \<open>sources\<close> in the YAML configuration. A key that the file does not
  give is \<open>None\<close>, as \<open>dict.get\<close> returns it.
\<close>

record source =
  src_type :: "string option"
  src_name :: "string option"
  src_url :: "string option"
  base_url :: "string option"
  list_selector :: "string option"
  title_selector :: "string option"
  link_selector :: "string option"
  description_selector :: "string option"
  date_selector :: "string option"
  date_attr :: "string option"
  date_format :: "string option"

record config =
  state_file :: "string option"
  sources :: "source list"
  limit :: "int option"
  feed :: "(string \<times> string) list"

text \<open>
  The state file is a JSON object; \<open>seen\<close> is the dictionary under its key "seen"
  (absent when the object has no such key), the other keys are carried along.
\<close>

type_synonym seen = "string \<rightharpoonup> bool"

record state =
  seen_entry :: "seen option"
  other_keys :: "(string \<times> string) list"

subsection \<open>External collaborators\<close>

text \<open>
  The libraries and the outside world, as parameters of the model:
  \<open>requests.get\<close> with \<open>raise_for_status\<close> (on the URL as the configuration gives
  it, \<open>None\<close> when it gives none), the two BeautifulSoup parsers, the CSS selector
  engine behind \<open>select\<close>, \<open>dateutil.parser.parse\<close>, \<open>datetime.strptime\<close>,
  \<open>urljoin\<close> (which raises \<open>ValueError\<close> on a malformed URL), \<open>json.load\<close>,
  \<open>email.utils.format_datetime\<close>, and the clock.
  \<open>clock_utc i j\<close> is the UTC reading of \<open>datetime.now(timezone.utc)\<close> when entry
  \<open>j\<close> of source \<open>i\<close> is resolved; \<open>build_clock\<close> is the reading when the feed is
  written.
\<close>

record ext =
  http_get :: "string option \<Rightarrow> error + string"
  soup_xml :: "string \<Rightarrow> node"
  soup_lxml :: "string \<Rightarrow> node"
  css_select :: "string \<Rightarrow> node \<Rightarrow> error + node list"
  dateutil_parse :: "string \<Rightarrow> error + datetime"
  strptime :: "string \<Rightarrow> string \<Rightarrow> error + datetime"
  urljoin :: "string option \<Rightarrow> string \<Rightarrow> error + string"
  json_load :: "string \<Rightarrow> error + state"
  format_datetime :: "datetime \<Rightarrow> string"
  clock_utc :: "nat \<Rightarrow> nat \<Rightarrow> int"
  build_clock :: int

definition aware_utc :: "int \<Rightarrow> datetime" where
  "aware_utc t = \<lparr>wall = t, tzinfo = Some 0\<rparr>"

section \<open>The script\<close>

subsection \<open>rfc822, load\_state, fetch\<close>

definition rfc822 :: "ext \<Rightarrow> datetime \<Rightarrow> string" where
  "rfc822 x dt =
     format_datetime x (if tzinfo dt = None then dt\<lparr>tzinfo := Some 0\<rparr> else dt)"

text \<open>The argument is the content of the state file, \<open>None\<close> when the path does not exist.\<close>

definition load_state :: "ext \<Rightarrow> string option \<Rightarrow> error + state" where
  "load_state x file =
     (case file of
        Some text \<Rightarrow> json_load x text
      | None \<Rightarrow> Inr \<lparr>seen_entry = Some Map.empty, other_keys = []\<rparr>)"

text \<open>The text of the response, or the exception of the request or of \<open>raise_for_status\<close>.\<close>

definition fetch :: "ext \<Rightarrow> string option \<Rightarrow> error + string" where
  "fetch x url = http_get x url"

subsection \<open>parse\_rss\<close>

text \<open>The body of the loop over the entries; \<open>now\<close> is the clock reading for this entry.\<close>

definition rss_link :: "node \<Rightarrow> string option" where
  "rss_link e =
     (let link = (case find e [''link''] of
                    None \<Rightarrow> None
                  | Some link_tag \<Rightarrow> py_or (tag_get link_tag ''href'') (Some (get_text [] link_tag)))
      in if \<not> truthy link
         then (case find_rel e ''link'' ''alternate'' of
                 None \<Rightarrow> link
               | Some alt \<Rightarrow> if truthy (tag_get alt ''href'') then tag_get alt ''href'' else link)
         else link)"

definition rss_guid :: "node \<Rightarrow> string option" where
  "rss_guid e =
     (case find e [''id''] of
        Some t \<Rightarrow> Some (get_text [] t)
      | None \<Rightarrow> (case find e [''guid''] of
                   Some t \<Rightarrow> Some (get_text [] t)
                 | None \<Rightarrow> None))"

fun rss_date_text :: "node \<Rightarrow> string list \<Rightarrow> string option" where
  "rss_date_text e [] = None"
| "rss_date_text e (tag # tags) =
     (case find e [tag] of
        None \<Rightarrow> rss_date_text e tags
      | Some t \<Rightarrow> if get_text [] t \<noteq> [] then Some (get_text [] t) else rss_date_text e tags)"

definition rss_date :: "ext \<Rightarrow> datetime \<Rightarrow> node \<Rightarrow> datetime" where
  "rss_date x now e =
     (let date_text = rss_date_text e [''published'', ''updated'', ''pubDate'', ''dc:date'', ''date'']
      in if truthy date_text
         then (case dateutil_parse x (the date_text) of Inr dt \<Rightarrow> dt | Inl err \<Rightarrow> now)
         else now)"

definition rss_entry :: "ext \<Rightarrow> datetime \<Rightarrow> node \<Rightarrow> item" where
  "rss_entry x now e =
     (let title = (case find e [''title''] of None \<Rightarrow> None | Some t \<Rightarrow> Some (get_text [] t));
          summary_el = find e [''summary'', ''content'', ''description''];
          summary = (case summary_el of None \<Rightarrow> [] | Some t \<Rightarrow> get_text '' '' t);
          dt = rss_date x now e;
          link = rss_link e;
          guid = or_str (rss_guid e) (or_str link (take 80 (or_str title [])))
      in \<lparr>title = or_str title ''(untitled)'',
          link = or_str link [],
          guid = guid,
          summary = summary,
          date = dt\<rparr>)"

definition parse_rss :: "ext \<Rightarrow> nat \<Rightarrow> string \<Rightarrow> item list" where
  "parse_rss x i xml_text =
     (let soup = soup_xml x xml_text;
          entries = find_all soup [''entry'', ''item'']
      in map (\<lambda>(j, e). rss_entry x (aware_utc (clock_utc x i j)) e) (enumerate 0 entries))"

subsection \<open>parse\_html\<close>

text \<open>\<open>b.select_one(sel)\<close>, and the guarded form \<open>b.select_one(sel) if sel else None\<close>.\<close>

definition select_one :: "ext \<Rightarrow> node \<Rightarrow> string \<Rightarrow> error + node option" where
  "select_one x b sel =
     bindE (css_select x sel b) (\<lambda>found. Inr (case found of [] \<Rightarrow> None | t # _ \<Rightarrow> Some t))"

definition select_opt :: "ext \<Rightarrow> node \<Rightarrow> string option \<Rightarrow> error + node option" where
  "select_opt x b sel = (if truthy sel then select_one x b (the sel) else Inr None)"

text \<open>
  Lines 101 to 105. The base handed to \<open>urljoin\<close> is \<open>cfg.get("base_url") or url\<close>;
  an exception of \<open>urljoin\<close> leaves the loop.
\<close>

definition html_link ::
  "ext \<Rightarrow> string option \<Rightarrow> source \<Rightarrow> node option \<Rightarrow> error + string option" where
  "html_link x url cfg link_el =
     (case link_el of
        None \<Rightarrow> Inr None
      | Some el \<Rightarrow>
          (let href = tag_get el ''href''
           in if truthy href
              then bindE (urljoin x (py_or (base_url cfg) url) (the href))
                     (\<lambda>joined. Inr (Some joined))
              else Inr None))"

definition html_date_text :: "source \<Rightarrow> node \<Rightarrow> string option" where
  "html_date_text cfg date_el =
     (let text = (if truthy (date_attr cfg) then tag_get date_el (the (date_attr cfg)) else None)
      in if \<not> truthy text then Some (get_text '' '' date_el) else text)"

text \<open>Lines 113 to 128: the value of \<open>dt\<close> before the test \<open>dt is None\<close>.\<close>

definition html_date :: "ext \<Rightarrow> source \<Rightarrow> node option \<Rightarrow> datetime option" where
  "html_date x cfg date_el =
     (case date_el of
        None \<Rightarrow> None
      | Some el \<Rightarrow>
          (let text = html_date_text cfg el
           in if truthy text
              then (case (if truthy (date_format cfg)
                          then strptime x (the text) (the (date_format cfg))
                          else dateutil_parse x (the text)) of
                      Inr dt \<Rightarrow> Some dt
                    | Inl err \<Rightarrow> None)
              else None))"

text \<open>
  The body of the loop over the blocks: \<open>Inl\<close> when a selector or \<open>urljoin\<close> raises,
  \<open>Inr None\<close> at \<open>continue\<close>, \<open>Inr (Some it)\<close> when an item is appended.
\<close>

definition html_block ::
  "ext \<Rightarrow> datetime \<Rightarrow> string option \<Rightarrow> source \<Rightarrow> node \<Rightarrow> error + item option" where
  "html_block x now url cfg b =
     bindE (select_opt x b (title_selector cfg)) (\<lambda>title_el.
     bindE (select_opt x b (link_selector cfg)) (\<lambda>link_el.
     bindE (html_link x url cfg link_el) (\<lambda>link.
     bindE (select_opt x b (description_selector cfg)) (\<lambda>desc_el.
     bindE (select_opt x b (date_selector cfg)) (\<lambda>date_el.
       (let title = map_option (get_text '' '') title_el;
            desc = (case desc_el of None \<Rightarrow> [] | Some t \<Rightarrow> get_text '' '' t);
            dt = (case html_date x cfg date_el of None \<Rightarrow> now | Some d \<Rightarrow> d)
        in if \<not> (truthy title \<or> truthy link) then Inr None
           else Inr (Some \<lparr>title = or_str title ''(untitled)'',
                           link = or_str link [],
                           guid = or_str link (take 80 (or_str title [])),
                           summary = desc,
                           date = dt\<rparr>)))))))"

fun html_blocks ::
  "ext \<Rightarrow> nat \<Rightarrow> nat \<Rightarrow> string option \<Rightarrow> source \<Rightarrow> node list \<Rightarrow> error + item list" where
  "html_blocks x i j url cfg [] = Inr []"
| "html_blocks x i j url cfg (b # bs) =
     bindE (html_block x (aware_utc (clock_utc x i j)) url cfg b) (\<lambda>r.
     bindE (html_blocks x i (Suc j) url cfg bs) (\<lambda>results.
       Inr (case r of None \<Rightarrow> results | Some it \<Rightarrow> it # results)))"

definition parse_html :: "ext \<Rightarrow> nat \<Rightarrow> string option \<Rightarrow> source \<Rightarrow> error + item list" where
  "parse_html x i url cfg =
     bindE (fetch x url) (\<lambda>text.
       (let soup = soup_lxml x text
        in if \<not> truthy (list_selector cfg)
           then Inl (ValueError ''Missing list_selector for HTML source'')
           else bindE (css_select x (the (list_selector cfg)) soup) (\<lambda>blocks.
                  html_blocks x i 0 url cfg blocks)))"

subsection \<open>build\_feed\<close>

record feed_item =
  fi_title :: string
  fi_link :: string
  fi_guid :: string
  fi_description :: string
  fi_pubDate :: string

record feed_doc =
  channel :: "(string \<times> string) list"
  lastBuildDate :: string
  feed_items :: "feed_item list"

definition build_feed :: "ext \<Rightarrow> (string \<times> string) list \<Rightarrow> item list \<Rightarrow> feed_doc" where
  "build_feed x channel_meta items =
     \<lparr>channel = concat (map (\<lambda>k. case map_of channel_meta k of None \<Rightarrow> [] | Some v \<Rightarrow> [(k, v)])
                    [''title'', ''link'', ''description'', ''language'', ''ttl'']),
      lastBuildDate = rfc822 x (aware_utc (build_clock x)),
      feed_items = map (\<lambda>it. \<lparr>fi_title = title it, fi_link = link it, fi_guid = guid it,
                              fi_description = summary it, fi_pubDate = rfc822 x (date it)\<rparr>) items\<rparr>"

subsection \<open>main\<close>

text \<open>Lines 185 to 189: the loop over the items of one source.\<close>

fun dedup :: "seen \<Rightarrow> item list \<Rightarrow> item list \<Rightarrow> seen \<times> item list" where
  "dedup seen all_items [] = (seen, all_items)"
| "dedup seen all_items (it # items) =
     (if seen (guid it) = None
      then dedup (seen(guid it \<mapsto> True)) (all_items @ [it]) items
      else dedup seen all_items items)"

definition source_name :: "source \<Rightarrow> string" where
  "source_name src = (case src_name src of None \<Rightarrow> ''source'' | Some n \<Rightarrow> n)"

definition warn_line :: "string \<Rightarrow> string option \<Rightarrow> error \<Rightarrow> string" where
  "warn_line name url e =
     ''[WARN] Failed to process '' @ name @ '' ('' @ py_str url @ ''): '' @ str_of_error e"

definition skip_line :: "string \<Rightarrow> string option \<Rightarrow> string" where
  "skip_line name stype =
     ''Skipping '' @ name @ '': unknown type '' @ [CHR 0x27] @ py_str stype @ [CHR 0x27]"

text \<open>
  The body of the loop over the sources, for source number \<open>i\<close>: the new \<open>seen\<close> and
  \<open>all_items\<close>, and the lines printed to the error stream.
\<close>

definition process_source ::
  "ext \<Rightarrow> nat \<Rightarrow> source \<Rightarrow> seen \<times> item list \<Rightarrow> (seen \<times> item list) \<times> string list" where
  "process_source x i src st =
     (let stype = src_type src; name = source_name src; url = src_url src
      in if stype = Some ''rss''
         then (case fetch x url of
                 Inl e \<Rightarrow> (st, [warn_line name url e])
               | Inr text \<Rightarrow> (dedup (fst st) (snd st) (parse_rss x i text), []))
         else if stype = Some ''html''
         then (case parse_html x i url src of
                 Inl e \<Rightarrow> (st, [warn_line name url e])
               | Inr items \<Rightarrow> (dedup (fst st) (snd st) items, []))
         else (st, [skip_line name stype]))"

fun run_sources ::
  "ext \<Rightarrow> nat \<Rightarrow> source list \<Rightarrow> seen \<times> item list \<Rightarrow> (seen \<times> item list) \<times> string list" where
  "run_sources x i [] st = (st, [])"
| "run_sources x i (src # srcs) st =
     (case process_source x i src st of
        (st1, printed1) \<Rightarrow>
          (case run_sources x (Suc i) srcs st1 of
             (st2, printed2) \<Rightarrow> (st2, printed1 @ printed2)))"

text \<open>
  \<open>all_items.sort(key=lambda x: x["date"], reverse=True)\<close>: the sort compares the keys
  with \<open><\<close>, so it raises \<open>TypeError\<close> as soon as the list holds a naive and an aware
  date; otherwise it is the stable sort by descending date.
\<close>

definition mixed_dates :: "item list \<Rightarrow> bool" where
  "mixed_dates xs =
     (list_ex (\<lambda>a. tzinfo (date a) = None) xs \<and> list_ex (\<lambda>b. tzinfo (date b) \<noteq> None) xs)"

definition sort_by_date :: "item list \<Rightarrow> error + item list" where
  "sort_by_date xs =
     (if mixed_dates xs
      then Inl naive_aware_error
      else Inr (sort_key (\<lambda>it. - utc_instant (date it)) xs))"

text \<open>\<open>xs[:n]\<close>, for a negative \<open>n\<close> too.\<close>

definition slice_to :: "'a list \<Rightarrow> int \<Rightarrow> 'a list" where
  "slice_to xs n = (if 0 \<le> n then take (nat n) xs else take (length xs - nat (- n)) xs)"

definition cfg_limit :: "config \<Rightarrow> int" where
  "cfg_limit cfg = (case limit cfg of None \<Rightarrow> 60 | Some n \<Rightarrow> n)"

text \<open>Lines 194 to 196: what \<open>main\<close> hands to \<open>build_feed\<close>.\<close>

definition sort_and_truncate :: "item list \<Rightarrow> int \<Rightarrow> error + item list" where
  "sort_and_truncate all_items lim = bindE (sort_by_date all_items) (\<lambda>sorted. Inr (slice_to sorted lim))"

record run_result =
  handed_items :: "item list"
  written_feed :: feed_doc
  saved_state :: state
  stderr :: "string list"

text \<open>
  \<open>main\<close>: \<open>file\<close> is the content of the state file (\<open>None\<close> when it does not exist).
  \<open>Inl e\<close> is a run that ends with the exception \<open>e\<close>, before the feed and the state
  are written; \<open>Inr r\<close> is a run that writes both.
\<close>

definition main :: "ext \<Rightarrow> config \<Rightarrow> string option \<Rightarrow> error + run_result" where
  "main x cfg file =
     bindE (load_state x file) (\<lambda>state.
       (let seen = (case seen_entry state of None \<Rightarrow> Map.empty | Some m \<Rightarrow> m)
        in case run_sources x 0 (sources cfg) (seen, []) of
             ((seen1, all_items), printed) \<Rightarrow>
               bindE (sort_and_truncate all_items (cfg_limit cfg)) (\<lambda>out_items.
                 Inr \<lparr>handed_items = out_items,
                      written_feed = build_feed x (feed cfg) out_items,
                      saved_state = state\<lparr>seen_entry := Some seen1\<rparr>,
                      stderr = printed\<rparr>)))"

section \<open>Notions of the specification\<close>

text \<open>
  The items that reach the loop of lines 185 to 189 for one source (none when the source
  fails or is skipped), and for all sources of a run, in declared order.
\<close>

definition source_items :: "ext \<Rightarrow> nat \<Rightarrow> source \<Rightarrow> item list" where
  "source_items x i src =
     (if src_type src = Some ''rss''
      then (case fetch x (src_url src) of Inl e \<Rightarrow> [] | Inr text \<Rightarrow> parse_rss x i text)
      else if src_type src = Some ''html''
      then (case parse_html x i (src_url src) src of Inl e \<Rightarrow> [] | Inr items \<Rightarrow> items)
      else [])"

fun run_items :: "ext \<Rightarrow> nat \<Rightarrow> source list \<Rightarrow> item list" where
  "run_items x i [] = []"
| "run_items x i (src # srcs) = source_items x i src @ run_items x (Suc i) srcs"

text \<open>
  First occurrences, in the specification's words: position \<open>i\<close> of a stream of items
  is kept when its identifier is not in the seen set the stream starts with and does not
  occur at an earlier position of the stream.
\<close>

definition kept_positions :: "seen \<Rightarrow> item list \<Rightarrow> nat list" where
  "kept_positions seen items =
     filter (\<lambda>i. seen (guid (items ! i)) = None \<and> guid (items ! i) \<notin> guid ` set (take i items))
       [0..<length items]"

definition kept_items :: "seen \<Rightarrow> item list \<Rightarrow> item list" where
  "kept_items seen items = map (\<lambda>i. items ! i) (kept_positions seen items)"

definition loaded_seen :: "state \<Rightarrow> seen" where
  "loaded_seen st = (case seen_entry st of None \<Rightarrow> Map.empty | Some m \<Rightarrow> m)"

section \<open>A concrete run\<close>

text \<open>
  Two sources and a state file, after the scenario of the specification: a syndication
  feed with the entries a1, a2, a3 (dated 3, 2 and 1 January 2024) and an HTML page with
  the blocks b1 and b2 (dated 4 January); b1 is in the state file already. The
  collaborators are fixed to what the libraries return on these documents.
\<close>

text \<open>Midnight UTC of the \<open>n\<close>-th of January 2024, in microseconds since the epoch.\<close>

definition day :: "int \<Rightarrow> int" where
  "day n = (1704067200 + 86400 * (n - 1)) * 1000000"

text \<open>
  \<open>email.utils.format_datetime\<close> on an aware value whose offset is a whole number of
  minutes; the date of a day number is computed in the proleptic Gregorian calendar.
\<close>

definition digits2 :: "int \<Rightarrow> string" where
  "digits2 n = [''0123456789'' ! nat (n div 10 mod 10), ''0123456789'' ! nat (n mod 10)]"

definition civil_date :: "int \<Rightarrow> int \<times> int \<times> int" where
  "civil_date days =
     (let z = days + 719468;
          era = z div 146097;
          doe = z - era * 146097;
          yoe = (doe - doe div 1460 + doe div 36524 - doe div 146096) div 365;
          doy = doe - (365 * yoe + yoe div 4 - yoe div 100);
          mp = (5 * doy + 2) div 153;
          d = doy - (153 * mp + 2) div 5 + 1;
          m = (if mp < 10 then mp + 3 else mp - 9);
          y = yoe + era * 400 + (if m \<le> 2 then 1 else 0)
      in (y, m, d))"

definition demo_format_datetime :: "datetime \<Rightarrow> string" where
  "demo_format_datetime dt =
     (let secs = wall dt div 1000000;
          days = secs div 86400;
          sod = secs mod 86400;
          zone = (case tzinfo dt of
                    None \<Rightarrow> ''-0000''
                  | Some off \<Rightarrow>
                      (if off < 0 then ''-'' else ''+'')
                      @ digits2 (\<bar>off\<bar> div 60000000 div 60) @ digits2 (\<bar>off\<bar> div 60000000 mod 60))
      in case civil_date days of
           (y, m, d) \<Rightarrow>
             [''Thu'', ''Fri'', ''Sat'', ''Sun'', ''Mon'', ''Tue'', ''Wed''] ! nat (days mod 7)
             @ '', '' @ digits2 d @ '' ''
             @ [''Jan'', ''Feb'', ''Mar'', ''Apr'', ''May'', ''Jun'',
                ''Jul'', ''Aug'', ''Sep'', ''Oct'', ''Nov'', ''Dec''] ! nat (m - 1)
             @ '' '' @ digits2 (y div 100) @ digits2 (y mod 100)
             @ '' '' @ digits2 (sod div 3600) @ '':'' @ digits2 (sod div 60 mod 60)
             @ '':'' @ digits2 (sod mod 60) @ '' '' @ zone)"

definition strptime_error :: "string \<Rightarrow> string \<Rightarrow> error" where
  "strptime_error t f =
     ValueError (''time data '' @ [CHR 0x27] @ t @ [CHR 0x27]
                 @ '' does not match format '' @ [CHR 0x27] @ f @ [CHR 0x27])"

definition demo_dates :: "(string \<times> datetime) list" where
  "demo_dates =
     [(''2024-01-01T00:00:00Z'', \<lparr>wall = day 1, tzinfo = Some 0\<rparr>),
      (''2024-01-02T00:00:00Z'', \<lparr>wall = day 2, tzinfo = Some 0\<rparr>),
      (''2024-01-03T00:00:00Z'', \<lparr>wall = day 3, tzinfo = Some 0\<rparr>),
      (''2024-01-04T00:00:00Z'', \<lparr>wall = day 4, tzinfo = Some 0\<rparr>),
      (''2024-01-02 00:00:00'', \<lparr>wall = day 2, tzinfo = None\<rparr>),
      (''Jan 5, 2024'', \<lparr>wall = day 5, tzinfo = None\<rparr>)]"

definition rss_item :: "string \<Rightarrow> string \<Rightarrow> string \<Rightarrow> string \<Rightarrow> node" where
  "rss_item t l g d =
     Tag None ''item'' []
       [Tag None ''title'' [] [NavigableString t],
        Tag None ''link'' [] [NavigableString l],
        Tag None ''guid'' [] [NavigableString g],
        Tag None ''pubDate'' [] [NavigableString d]]"

definition demo_feed_a :: node where
  "demo_feed_a =
     Tag None ''rss'' [(''version'', ''2.0'')]
       [Tag None ''channel'' []
          [rss_item ''A one'' ''https://a.example/1'' ''a1'' ''2024-01-03T00:00:00Z'',
           rss_item ''A two'' ''https://a.example/2'' ''a2'' ''2024-01-02T00:00:00Z'',
           rss_item ''A three'' ''https://a.example/3'' ''a3'' ''2024-01-01T00:00:00Z'']]"

definition html_li :: "string \<Rightarrow> string \<Rightarrow> string \<Rightarrow> node" where
  "html_li t h d =
     Tag None ''li'' []
       [Tag None ''a'' [(''href'', h)] [NavigableString t],
        Tag None ''time'' [(''datetime'', d)] [NavigableString ''Jan 5, 2024'']]"

definition demo_page_b :: node where
  "demo_page_b =
     Tag None ''html'' []
       [Tag None ''body'' []
          [Tag None ''ul'' []
             [html_li ''B one'' ''b1'' ''2024-01-04T00:00:00Z'',
              html_li ''B two'' ''b2'' ''2024-01-04T00:00:00Z'']]]"

text \<open>A feed whose first entry has a date without zone and whose second entry has no date.\<close>

definition demo_feed_n :: node where
  "demo_feed_n =
     Tag None ''rss'' [(''version'', ''2.0'')]
       [Tag None ''channel'' []
          [rss_item ''N one'' ''https://n.example/1'' ''n1'' ''2024-01-02 00:00:00'',
           Tag None ''item'' []
             [Tag None ''title'' [] [NavigableString ''N two''],
              Tag None ''guid'' [] [NavigableString ''n2'']]]]"

text \<open>An entry with a description only: no title, no link, no id.\<close>

definition demo_bare_entry :: node where
  "demo_bare_entry = Tag None ''item'' [] [Tag None ''description'' [] [NavigableString ''text only'']]"

text \<open>An Atom entry whose first link is the self link and whose second is the alternate one.\<close>

definition demo_atom_entry :: node where
  "demo_atom_entry =
     Tag None ''entry'' []
       [Tag None ''title'' [] [NavigableString ''Post''],
        Tag None ''link'' [(''rel'', ''self''), (''href'', ''https://l.example/api/post.atom'')] [],
        Tag None ''link'' [(''rel'', ''alternate''), (''href'', ''https://l.example/post'')] [],
        Tag None ''id'' [] [NavigableString ''tag:l.example,2024:post'']]"

definition demo_state_text :: string where
  \<open>demo_state_text = ''{"seen": {"https://b.example/b1": true}}''\<close>

text \<open>
  The server answers the three URLs and 404 for any other; a source without URL makes
  \<open>requests\<close> raise for the missing scheme. The selector engine is given type selectors
  only. \<open>urljoin\<close> is given a base that ends in a slash and a relative path, or the
  malformed URL of the text. \<open>json.load\<close> is given the state file above, or a text that
  is not JSON.
\<close>

definition demo_ext :: ext where
  "demo_ext =
     \<lparr>http_get = (\<lambda>url. case url of
                       None \<Rightarrow> Inl (RequestException
                                 (''Invalid URL '' @ [CHR 0x27] @ ''None'' @ [CHR 0x27]
                                  @ '': No scheme supplied. Perhaps you meant https://None?''))
                     | Some u \<Rightarrow>
                         if u = ''https://a.example/feed'' then Inr ''feed A''
                         else if u = ''https://b.example/news'' then Inr ''page B''
                         else if u = ''https://n.example/feed'' then Inr ''feed N''
                         else Inl (RequestException (''404 Client Error: Not Found for url: '' @ u))),
      soup_xml = (\<lambda>t. if t = ''feed A'' then demo_feed_a
                      else if t = ''feed N'' then demo_feed_n
                      else Tag None ''[document]'' [] []),
      soup_lxml = (\<lambda>t. if t = ''page B'' then demo_page_b else Tag None ''[document]'' [] []),
      css_select = (\<lambda>sel n. Inr (find_all n [sel])),
      dateutil_parse = (\<lambda>t. case map_of demo_dates t of
                              Some d \<Rightarrow> Inr d
                            | None \<Rightarrow> Inl (ParserError (''Unknown string format: '' @ t))),
      strptime = (\<lambda>t f. if f = ''%Y-%m-%dT%H:%M:%SZ'' \<and> t = ''2024-01-04T00:00:00Z''
                        then Inr \<lparr>wall = day 4, tzinfo = None\<rparr>
                        else Inl (strptime_error t f)),
      urljoin = (\<lambda>b h. if h = ''http://[bad'' then Inl (ValueError ''Invalid IPv6 URL'')
                        else Inr (or_str b [] @ h)),
      json_load = (\<lambda>t. if t = demo_state_text
                       then Inr \<lparr>seen_entry = Some [''https://b.example/b1'' \<mapsto> True], other_keys = []\<rparr>
                       else if t = ''{not json''
                       then Inl (JSONDecodeError
                              ''Expecting property name enclosed in double quotes: line 1 column 2 (char 1)'')
                       else Inl (JSONDecodeError ''Expecting value: line 1 column 1 (char 0)'')),
      format_datetime = demo_format_datetime,
      clock_utc = (\<lambda>i j. 1730000000000000 + 60000000 * int i + 1000 * int j),
      build_clock = 1730000600000000\<rparr>"

definition no_source :: source where
  "no_source =
     \<lparr>src_type = None, src_name = None, src_url = None, base_url = None,
      list_selector = None, title_selector = None, link_selector = None,
      description_selector = None, date_selector = None, date_attr = None,
      date_format = None\<rparr>"

definition demo_source_a :: source where
  "demo_source_a =
     no_source\<lparr>src_type := Some ''rss'', src_name := Some ''A'',
               src_url := Some ''https://a.example/feed''\<rparr>"

definition demo_source_b :: source where
  "demo_source_b =
     no_source\<lparr>src_type := Some ''html'', src_name := Some ''B'',
               src_url := Some ''https://b.example/news'',
               base_url := Some ''https://b.example/'',
               list_selector := Some ''li'', title_selector := Some ''a'',
               link_selector := Some ''a'', date_selector := Some ''time'',
               date_attr := Some ''datetime''\<rparr>"

definition demo_source_n :: source where
  "demo_source_n =
     no_source\<lparr>src_type := Some ''rss'', src_name := Some ''N'',
               src_url := Some ''https://n.example/feed''\<rparr>"

text \<open>Source B with a fixed date format, and the date read from the text of the element.\<close>

definition demo_source_f :: source where
  "demo_source_f = demo_source_b\<lparr>date_attr := None, date_format := Some ''%Y-%m-%d''\<rparr>"

text \<open>Source B with the date read from the text of the element, by the tolerant parser.\<close>

definition demo_source_t :: source where
  "demo_source_t = demo_source_b\<lparr>date_attr := None\<rparr>"

definition demo_cfg :: "source list \<Rightarrow> int option \<Rightarrow> config" where
  "demo_cfg srcs lim =
     \<lparr>state_file = None, sources = srcs, limit = lim, feed = [(''title'', ''Demo'')]\<rparr>"

section \<open>Properties of the loops\<close>

lemma bindE_Inr: "bindE (Inr v) f = f v"
  by (simp add: bindE_def)

lemma bindE_Inl: "bindE (Inl e) f = Inl e"
  by (simp add: bindE_def)

lemma kept_positions_Cons:
  "kept_positions seen (it # items) =
     (if seen (guid it) = None
      then 0 # map Suc (kept_positions (seen(guid it \<mapsto> True)) items)
      else map Suc (kept_positions seen items))"
proof -
  have upt: "[0..<length (it # items)] = 0 # map Suc [0..<length items]"
    by (simp add: upt_conv_Cons map_Suc_upt del: upt_Suc)
  show ?thesis
  proof (cases "seen (guid it) = None")
    case True
    then show ?thesis
      unfolding kept_positions_def upt
      by (auto simp: filter_map comp_def intro!: filter_cong)
  next
    case False
    then show ?thesis
      unfolding kept_positions_def upt
      by (auto simp: filter_map comp_def intro!: filter_cong)
  qed
qed

lemma kept_items_Nil: "kept_items seen [] = []"
  by (simp add: kept_items_def kept_positions_def)

lemma kept_items_Cons:
  "kept_items seen (it # items) =
     (if seen (guid it) = None then it # kept_items (seen(guid it \<mapsto> True)) items
      else kept_items seen items)"
  by (simp add: kept_items_def kept_positions_Cons comp_def)

lemma dedup_snd: "snd (dedup seen acc xs) = acc @ kept_items seen xs"
proof (induction xs arbitrary: seen acc)
  case Nil
  show ?case by (simp add: kept_items_Nil)
next
  case (Cons x xs)
  show ?case
  proof (cases "seen (guid x) = None")
    case True
    have "snd (dedup seen acc (x # xs)) = snd (dedup (seen(guid x \<mapsto> True)) (acc @ [x]) xs)"
      using True by simp
    also have "\<dots> = (acc @ [x]) @ kept_items (seen(guid x \<mapsto> True)) xs"
      by (rule Cons.IH)
    also have "\<dots> = acc @ kept_items seen (x # xs)"
      using True by (simp add: kept_items_Cons)
    finally show ?thesis .
  next
    case False
    have "snd (dedup seen acc (x # xs)) = snd (dedup seen acc xs)"
      by (simp add: False)
    also have "\<dots> = acc @ kept_items seen xs"
      by (rule Cons.IH)
    also have "\<dots> = acc @ kept_items seen (x # xs)"
      by (simp add: kept_items_Cons False)
    finally show ?thesis .
  qed
qed

lemma dedup_fst:
  "fst (dedup seen acc xs) g =
     (if g \<in> guid ` set xs \<and> seen g = None then Some True else seen g)"
  by (induction xs arbitrary: seen acc) auto

lemma kept_items_guids:
  "guid ` set (kept_items seen xs) = {g \<in> guid ` set xs. seen g = None}"
proof (induction xs arbitrary: seen)
  case Nil
  show ?case by (simp add: kept_items_Nil)
next
  case (Cons x xs)
  show ?case
  proof (cases "seen (guid x) = None")
    case True
    have "guid ` set (kept_items seen (x # xs)) =
            insert (guid x) (guid ` set (kept_items (seen(guid x \<mapsto> True)) xs))"
      using True by (simp add: kept_items_Cons)
    also have "\<dots> = insert (guid x) {g \<in> guid ` set xs. (seen(guid x \<mapsto> True)) g = None}"
      by (simp only: Cons.IH)
    also have "\<dots> = {g \<in> guid ` set (x # xs). seen g = None}"
      using True by auto
    finally show ?thesis .
  next
    case False
    have "guid ` set (kept_items seen (x # xs)) = guid ` set (kept_items seen xs)"
      by (simp add: kept_items_Cons False)
    also have "\<dots> = {g \<in> guid ` set xs. seen g = None}"
      by (rule Cons.IH)
    also have "\<dots> = {g \<in> guid ` set (x # xs). seen g = None}"
      using False by auto
    finally show ?thesis .
  qed
qed

lemma kept_items_distinct: "distinct (map guid (kept_items seen xs))"
proof (induction xs arbitrary: seen)
  case Nil
  show ?case by (simp add: kept_items_Nil)
next
  case (Cons x xs)
  have fresh: "guid x \<notin> guid ` set (kept_items (seen(guid x \<mapsto> True)) xs)"
    unfolding kept_items_guids by simp
  show ?case
  proof (cases "seen (guid x) = None")
    case True
    have eq: "kept_items seen (x # xs) = x # kept_items (seen(guid x \<mapsto> True)) xs"
      by (simp add: kept_items_Cons True)
    have "distinct (map guid (kept_items (seen(guid x \<mapsto> True)) xs))"
      by (rule Cons.IH)
    then show ?thesis
      unfolding eq using fresh by simp
  next
    case False
    have eq: "kept_items seen (x # xs) = kept_items seen xs"
      by (simp add: kept_items_Cons False)
    show ?thesis
      unfolding eq by (rule Cons.IH)
  qed
qed

lemma dedup_append:
  "dedup seen acc (xs @ ys) = (case dedup seen acc xs of (s1, a1) \<Rightarrow> dedup s1 a1 ys)"
  by (induction xs arbitrary: seen acc) auto

lemma dom_dedup: "dom (fst (dedup seen acc xs)) = dom seen \<union> guid ` set (kept_items seen xs)"
proof -
  have "dom (fst (dedup seen acc xs)) = dom seen \<union> {g \<in> guid ` set xs. seen g = None}"
    by (auto simp: dom_def dedup_fst split: if_splits)
  then show ?thesis
    by (simp add: kept_items_guids)
qed

lemma process_source_items:
  "fst (process_source x i src st) = dedup (fst st) (snd st) (source_items x i src)"
  by (simp add: process_source_def source_items_def Let_def split: sum.splits)

lemma run_sources_items:
  "fst (run_sources x i srcs st) = dedup (fst st) (snd st) (run_items x i srcs)"
proof (induction srcs arbitrary: i st)
  case Nil
  show ?case by simp
next
  case (Cons src srcs)
  obtain st1 p1 where step: "process_source x i src st = (st1, p1)"
    by (cases "process_source x i src st")
  obtain st2 p2 where rest: "run_sources x (Suc i) srcs st1 = (st2, p2)"
    by (cases "run_sources x (Suc i) srcs st1")
  have st1: "st1 = dedup (fst st) (snd st) (source_items x i src)"
    using process_source_items [of x i src st] step by simp
  have "st2 = dedup (fst st1) (snd st1) (run_items x (Suc i) srcs)"
    using Cons.IH [of "Suc i" st1] rest by simp
  then show ?case
    using step rest st1 by (simp add: dedup_append split: prod.splits)
qed

lemma main_unfold:
  assumes "load_state x file = Inr st"
  shows "main x cfg file =
     (case sort_and_truncate (kept_items (loaded_seen st) (run_items x 0 (sources cfg))) (cfg_limit cfg) of
        Inl e \<Rightarrow> Inl e
      | Inr out_items \<Rightarrow>
          Inr \<lparr>handed_items = out_items,
               written_feed = build_feed x (feed cfg) out_items,
               saved_state = st\<lparr>seen_entry :=
                 Some (fst (dedup (loaded_seen st) [] (run_items x 0 (sources cfg))))\<rparr>,
               stderr = snd (run_sources x 0 (sources cfg) (loaded_seen st, []))\<rparr>)"
proof -
  obtain seen1 all_items printed
    where run: "run_sources x 0 (sources cfg) (loaded_seen st, []) = ((seen1, all_items), printed)"
    by (metis surj_pair)
  have "(seen1, all_items) = dedup (loaded_seen st) [] (run_items x 0 (sources cfg))"
    using run_sources_items [of x 0 "sources cfg" "(loaded_seen st, [])"] run by simp
  then have parts: "seen1 = fst (dedup (loaded_seen st) [] (run_items x 0 (sources cfg)))"
      "all_items = kept_items (loaded_seen st) (run_items x 0 (sources cfg))"
    using dedup_snd [of "loaded_seen st" "[]" "run_items x 0 (sources cfg)"]
    by (simp_all add: prod_eq_iff)
  have "main x cfg file =
      bindE (sort_and_truncate all_items (cfg_limit cfg)) (\<lambda>out_items.
                 Inr \<lparr>handed_items = out_items,
                      written_feed = build_feed x (feed cfg) out_items,
                      saved_state = st\<lparr>seen_entry := Some seen1\<rparr>,
                      stderr = printed\<rparr>)"
    using assms run by (simp add: main_def bindE_Inr loaded_seen_def)
  then show ?thesis
    using run unfolding parts by (simp add: bindE_def split: sum.splits)
qed

lemma main_loads:
  assumes "main x cfg file = Inr r"
  shows "\<exists>st. load_state x file = Inr st"
  using assms by (cases "load_state x file") (simp_all add: main_def bindE_def)

text \<open>
  The sort raises exactly when two of the dates cannot be compared; otherwise every
  comparison of two dates of the list is the comparison of their UTC instants.
\<close>

lemma mixed_dates_iff_dt_less:
  "mixed_dates xs \<longleftrightarrow>
     (\<exists>a \<in> set xs. \<exists>b \<in> set xs.
        dt_less (date a) (date b) =
          Inl naive_aware_error)"
  by (auto simp: mixed_dates_def dt_less_def list_ex_iff)

lemma comparable_dt_less:
  assumes "\<not> mixed_dates xs" and "a \<in> set xs" and "b \<in> set xs"
  shows "dt_less (date a) (date b) = Inr (utc_instant (date a) < utc_instant (date b))"
  using assms by (auto simp: mixed_dates_def dt_less_def list_ex_iff)

lemma sort_by_date_Inr:
  assumes "\<not> mixed_dates xs"
  shows "sort_by_date xs = Inr (sort_key (\<lambda>it. - utc_instant (date it)) xs)"
  using assms by (simp add: sort_by_date_def)

lemma sorted_by_date_desc:
  "sorted_wrt (\<lambda>a b. utc_instant (date b) \<le> utc_instant (date a))
     (sort_key (\<lambda>it. - utc_instant (date it)) xs)"
proof -
  have "sorted (map (\<lambda>it. - utc_instant (date it)) (sort_key (\<lambda>it. - utc_instant (date it)) xs))"
    by (rule sorted_sort_key)
  then show ?thesis
    by (simp add: sorted_map)
qed

lemma sort_by_date_stable:
  "filter (\<lambda>it. utc_instant (date it) = t) (sort_key (\<lambda>it. - utc_instant (date it)) xs) =
   filter (\<lambda>it. utc_instant (date it) = t) xs"
proof -
  have "filter (\<lambda>it. - utc_instant (date it) = - t) (sort_key (\<lambda>it. - utc_instant (date it)) xs) =
        filter (\<lambda>it. - utc_instant (date it) = - t) xs"
    by (rule sort_key_stable)
  then show ?thesis by simp
qed

lemma sorted_wrt_take_drop:
  assumes "sorted_wrt P xs"
  shows "\<forall>k \<in> set (take n xs). \<forall>d \<in> set (drop n xs). P k d"
proof -
  have "sorted_wrt P (take n xs @ drop n xs)"
    using assms by simp
  then show ?thesis
    unfolding sorted_wrt_append by blast
qed

lemma run_sources_silent_head:
  assumes "process_source x i src st = (st, [line])"
  shows "run_sources x i (src # rest) st =
           (case run_sources x (Suc i) rest st of (st2, printed) \<Rightarrow> (st2, line # printed))"
  using assms by (simp split: prod.splits)

lemma main_silent_head:
  assumes step: "process_source x 0 src (loaded_seen loaded, []) = ((loaded_seen loaded, []), [line])"
    and ld: "load_state x file = Inr loaded"
    and out: "sort_and_truncate (kept_items (loaded_seen loaded) (run_items x (Suc 0) rest))
                (cfg_limit cfg) = Inr out"
  shows "main x (cfg\<lparr>sources := src # rest\<rparr>) file =
           Inr \<lparr>handed_items = out,
                written_feed = build_feed x (feed cfg) out,
                saved_state = loaded\<lparr>seen_entry :=
                  Some (fst (dedup (loaded_seen loaded) [] (run_items x (Suc 0) rest)))\<rparr>,
                stderr = line # snd (run_sources x (Suc 0) rest (loaded_seen loaded, []))\<rparr>"
proof -
  obtain st2 printed
    where rest: "run_sources x (Suc 0) rest (loaded_seen loaded, []) = (st2, printed)"
    by (cases "run_sources x (Suc 0) rest (loaded_seen loaded, [])")
  have st2: "st2 = dedup (loaded_seen loaded) [] (run_items x (Suc 0) rest)"
    using run_sources_items [of x "Suc 0" rest "(loaded_seen loaded, [])"] rest by simp
  have all: "snd st2 = kept_items (loaded_seen loaded) (run_items x (Suc 0) rest)"
    unfolding st2 by (simp add: dedup_snd)
  have run: "run_sources x 0 (src # rest) (loaded_seen loaded, []) = (st2, line # printed)"
    using run_sources_silent_head [OF step, of rest] rest by simp
  obtain seen1 all_items where pair: "st2 = (seen1, all_items)"
    by (cases st2)
  have "sort_and_truncate all_items (cfg_limit cfg) = Inr out"
    using out all pair by simp
  moreover have "cfg_limit (cfg\<lparr>sources := src # rest\<rparr>) = cfg_limit cfg"
    by (simp add: cfg_limit_def)
  ultimately show ?thesis
    using ld run rest pair st2
    by (simp add: main_def bindE_Inr loaded_seen_def [symmetric])
qed

lemma parse_html_no_list_selector:
  assumes "\<not> truthy (list_selector src)"
  shows "parse_html x i url src =
           Inl (case fetch x url of
                  Inl err \<Rightarrow> err
                | Inr text \<Rightarrow> ValueError ''Missing list_selector for HTML source'')"
  using assms by (simp add: parse_html_def bindE_def split: sum.splits)

lemma html_date_strptime_fails:
  assumes "truthy (date_format cfg)"
    and "strptime x (the (html_date_text cfg date_el)) (the (date_format cfg)) = Inl err"
  shows "html_date x cfg (Some date_el) = None"
  using assms by (simp add: html_date_def Let_def)

lemma find_rel_None:
  assumes "find e [n] = None"
  shows "find_rel e n r = None"
  using assms by (simp add: find_def find_rel_def split: list.splits)

lemma or_str_py_or:
  "or_str (py_or a (Some t)) d = (if truthy a then the a else if t \<noteq> [] then t else d)"
  by (cases a) (simp_all add: or_str_def py_or_def truthy_def)

lemma rss_guid_priority:
  "guid (rss_entry x now e) =
     (if truthy (rss_guid e) then the (rss_guid e)
      else if truthy (rss_link e) then the (rss_link e)
      else take 80 (case find e [''title''] of None \<Rightarrow> [] | Some t \<Rightarrow> get_text [] t))"
  by (simp add: rss_entry_def Let_def or_str_def truthy_def split: option.splits)

lemma rss_guid_empty_iff:
  "guid (rss_entry x now e) = [] \<longleftrightarrow>
     \<not> truthy (rss_guid e) \<and> \<not> truthy (rss_link e)
     \<and> (case find e [''title''] of None \<Rightarrow> True | Some t \<Rightarrow> get_text [] t = [])"
  by (auto simp: rss_entry_def Let_def or_str_def truthy_def split: option.splits)

lemma html_guid_nonempty:
  assumes "html_block x now url cfg b = Inr (Some it)"
  shows "guid it \<noteq> []"
  using assms
  by (auto simp: html_block_def bindE_def Let_def or_str_def truthy_def
           split: sum.splits option.splits if_splits)

lemma malformed_href_aborts_block:
  assumes "select_opt x b (title_selector cfg) = Inr title_el"
    and "select_opt x b (link_selector cfg) = Inr (Some el)"
    and "truthy (tag_get el ''href'')"
    and "urljoin x (py_or (base_url cfg) url) (the (tag_get el ''href'')) = Inl err"
  shows "html_block x now url cfg b = Inl err"
  using assms by (simp add: html_block_def html_link_def bindE_Inr bindE_Inl Let_def)

lemma rfc822_naive_is_utc:
  "rfc822 x \<lparr>wall = w, tzinfo = None\<rparr> = rfc822 x \<lparr>wall = w, tzinfo = Some 0\<rparr>"
  by (simp add: rfc822_def)

text \<open>The collaborators of the concrete run, at some of their inputs.\<close>

lemma demo_format_datetime_samples:
  "demo_format_datetime \<lparr>wall = day 1, tzinfo = Some 0\<rparr> = ''Mon, 01 Jan 2024 00:00:00 +0000''"
  "demo_format_datetime \<lparr>wall = day 4, tzinfo = Some 0\<rparr> = ''Thu, 04 Jan 2024 00:00:00 +0000''"
  "demo_format_datetime (aware_utc 1730000600000000) = ''Sun, 27 Oct 2024 03:43:20 +0000''"
  "demo_format_datetime (aware_utc 0) = ''Thu, 01 Jan 1970 00:00:00 +0000''"
  "demo_format_datetime (aware_utc (- 1000000)) = ''Wed, 31 Dec 1969 23:59:59 +0000''"
  "demo_format_datetime (aware_utc 951782400000000) = ''Tue, 29 Feb 2000 00:00:00 +0000''"
  "demo_format_datetime \<lparr>wall = day 5, tzinfo = Some 19800000000\<rparr> = ''Fri, 05 Jan 2024 00:00:00 +0530''"
  "demo_format_datetime \<lparr>wall = day 5, tzinfo = Some (- 12600000000)\<rparr> = ''Fri, 05 Jan 2024 00:00:00 -0330''"
  by code_simp+

lemma prefixed_tags_are_found:
  "find (Tag None ''item'' []
           [Tag (Some ''atom'') ''link'' [(''href'', ''https://p.example/1'')] [],
            Tag (Some ''dc'') ''date'' [] [NavigableString ''2024-01-01T00:00:00Z'']]) [''link''] =
     Some (Tag (Some ''atom'') ''link'' [(''href'', ''https://p.example/1'')] [])"
  "rss_date_text (Tag None ''item'' []
           [Tag (Some ''atom'') ''link'' [(''href'', ''https://p.example/1'')] [],
            Tag (Some ''dc'') ''date'' [] [NavigableString ''2024-01-01T00:00:00Z'']])
     [''published'', ''updated'', ''pubDate'', ''dc:date'', ''date''] = Some ''2024-01-01T00:00:00Z''"
  "find (Tag None ''item'' [] [Tag (Some ''dc'') ''date'' [] []]) [''atom:date''] = None"
  by code_simp+

lemma strip_removes_no_break_space:
  "strip [CHR 0xA0, CHR ''a'', CHR 0x85] = ''a''"
  by code_simp

section \<open>The claims\<close>

text \<open>
  Claim C1. Let the items extracted in a run, sources in declared order, be the stream
  \<open>pre @ it # post\<close>. When \<open>it\<close> is processed the loop has the seen set and the
  accumulation that \<open>pre\<close> left; \<open>it\<close> is appended exactly when its identifier is not
  in that seen set, and the identifier is marked before \<open>post\<close> is processed. So the
  accumulation grows by the items at the first occurrence of an identifier that the
  loaded seen set does not hold (\<open>kept_items\<close>), their identifiers are distinct, and the
  seen set grows by exactly these identifiers.
\<close>

theorem first_occurrence_kept:
  assumes "run_items x i srcs = pre @ it # post"
  shows "fst (run_sources x i srcs (seen, all_items)) =
           (case dedup seen all_items pre of
              (seen_now, kept_now) \<Rightarrow>
                if seen_now (guid it) = None
                then dedup (seen_now(guid it \<mapsto> True)) (kept_now @ [it]) post
                else dedup seen_now kept_now post)
       \<and> snd (fst (run_sources x i srcs (seen, all_items))) =
           all_items @ kept_items seen (run_items x i srcs)
       \<and> dom (fst (fst (run_sources x i srcs (seen, all_items)))) =
           dom seen \<union> guid ` set (kept_items seen (run_items x i srcs))
       \<and> distinct (map guid (kept_items seen (run_items x i srcs)))"
proof -
  have run: "fst (run_sources x i srcs (seen, all_items)) = dedup seen all_items (pre @ it # post)"
    using assms run_sources_items [of x i srcs "(seen, all_items)"] by simp
  have step: "dedup seen all_items (pre @ it # post) =
           (case dedup seen all_items pre of
              (seen_now, kept_now) \<Rightarrow>
                if seen_now (guid it) = None
                then dedup (seen_now(guid it \<mapsto> True)) (kept_now @ [it]) post
                else dedup seen_now kept_now post)"
    by (simp add: dedup_append split: prod.splits)
  have whole: "fst (run_sources x i srcs (seen, all_items)) =
                 dedup seen all_items (run_items x i srcs)"
    using run_sources_items [of x i srcs "(seen, all_items)"] by simp
  show ?thesis
    unfolding whole dedup_snd dom_dedup
    using step assms kept_items_distinct [of seen "run_items x i srcs"] by simp
qed

theorem first_occurrence_kept_witness:
  "run_items demo_ext 0 [demo_source_a, demo_source_b, demo_source_a] =
     take 5 (run_items demo_ext 0 [demo_source_a, demo_source_b, demo_source_a])
     @ (run_items demo_ext 0 [demo_source_a, demo_source_b, demo_source_a] ! 5)
     # drop 6 (run_items demo_ext 0 [demo_source_a, demo_source_b, demo_source_a])
   \<and> map guid (run_items demo_ext 0 [demo_source_a, demo_source_b, demo_source_a]) =
       [''a1'', ''a2'', ''a3'', ''https://b.example/b1'', ''https://b.example/b2'',
        ''a1'', ''a2'', ''a3'']
   \<and> map guid (snd (fst (run_sources demo_ext 0 [demo_source_a, demo_source_b, demo_source_a]
                            ([''https://b.example/b1'' \<mapsto> True], [])))) =
       [''a1'', ''a2'', ''a3'', ''https://b.example/b2'']"
proof -
  have split: "run_items demo_ext 0 [demo_source_a, demo_source_b, demo_source_a] =
     take 5 (run_items demo_ext 0 [demo_source_a, demo_source_b, demo_source_a])
     @ (run_items demo_ext 0 [demo_source_a, demo_source_b, demo_source_a] ! 5)
     # drop 6 (run_items demo_ext 0 [demo_source_a, demo_source_b, demo_source_a])"
    by code_simp
  have stream: "map guid (run_items demo_ext 0 [demo_source_a, demo_source_b, demo_source_a]) =
       [''a1'', ''a2'', ''a3'', ''https://b.example/b1'', ''https://b.example/b2'',
        ''a1'', ''a2'', ''a3'']"
    by code_simp
  have kept: "map guid (kept_items [''https://b.example/b1'' \<mapsto> True]
                 (run_items demo_ext 0 [demo_source_a, demo_source_b, demo_source_a])) =
       [''a1'', ''a2'', ''a3'', ''https://b.example/b2'']"
    by code_simp
  have "snd (fst (run_sources demo_ext 0 [demo_source_a, demo_source_b, demo_source_a]
                    ([''https://b.example/b1'' \<mapsto> True], []))) =
          [] @ kept_items [''https://b.example/b1'' \<mapsto> True]
                 (run_items demo_ext 0 [demo_source_a, demo_source_b, demo_source_a])"
    using first_occurrence_kept [OF split, of "[''https://b.example/b1'' \<mapsto> True]" "[]"]
    by blast
  then have "map guid (snd (fst (run_sources demo_ext 0 [demo_source_a, demo_source_b, demo_source_a]
                            ([''https://b.example/b1'' \<mapsto> True], [])))) =
       [''a1'', ''a2'', ''a3'', ''https://b.example/b2'']"
    using kept by (simp only: append_Nil)
  then show ?thesis
    using split stream by blast
qed

text \<open>
  Claim C4. A run that succeeds saves, under "seen", the loaded dictionary extended by
  the identifiers of all items the dedup loop kept: the items before the sort and the
  truncation. What is handed to the feed writer is the truncated sort of the same kept
  items, so truncation takes items out of the feed only. Entries of the loaded
  dictionary and the other keys of the state file are saved unchanged.
\<close>

theorem persisted_seen_is_loaded_plus_kept:
  assumes "main x cfg file = Inr r"
  shows "\<exists>st seen1. load_state x file = Inr st
       \<and> seen_entry (saved_state r) = Some seen1
       \<and> dom seen1 = dom (loaded_seen st)
                       \<union> guid ` set (kept_items (loaded_seen st) (run_items x 0 (sources cfg)))
       \<and> (\<forall>g. loaded_seen st g \<noteq> None \<longrightarrow> seen1 g = loaded_seen st g)
       \<and> other_keys (saved_state r) = other_keys st
       \<and> sort_and_truncate (kept_items (loaded_seen st) (run_items x 0 (sources cfg)))
            (cfg_limit cfg) = Inr (handed_items r)"
proof -
  obtain st where st: "load_state x file = Inr st"
    using main_loads [OF assms] by blast
  let ?kept = "kept_items (loaded_seen st) (run_items x 0 (sources cfg))"
  let ?seen1 = "fst (dedup (loaded_seen st) [] (run_items x 0 (sources cfg)))"
  obtain out_items where out: "sort_and_truncate ?kept (cfg_limit cfg) = Inr out_items"
    using assms main_unfold [OF st, of cfg]
    by (cases "sort_and_truncate ?kept (cfg_limit cfg)") simp_all
  have r: "r = \<lparr>handed_items = out_items,
               written_feed = build_feed x (feed cfg) out_items,
               saved_state = st\<lparr>seen_entry := Some ?seen1\<rparr>,
               stderr = snd (run_sources x 0 (sources cfg) (loaded_seen st, []))\<rparr>"
    using assms main_unfold [OF st, of cfg] out by simp
  have dom: "dom ?seen1 = dom (loaded_seen st) \<union> guid ` set ?kept"
    by (rule dom_dedup)
  have old: "\<forall>g. loaded_seen st g \<noteq> None \<longrightarrow> ?seen1 g = loaded_seen st g"
    by (simp add: dedup_fst)
  show ?thesis
    using st dom old out by (intro exI [of _ st] exI [of _ ?seen1]) (simp add: r)
qed



theorem persisted_seen_is_loaded_plus_kept_witness:
  "\<exists>r. main demo_ext (demo_cfg [demo_source_a, demo_source_b] (Some 2)) (Some demo_state_text) = Inr r
      \<and> map guid (handed_items r) = [''https://b.example/b2'', ''a1'']
      \<and> (\<exists>seen1. seen_entry (saved_state r) = Some seen1
            \<and> dom seen1 = dom [''https://b.example/b1'' \<mapsto> True]
                          \<union> set [''a1'', ''a2'', ''a3'', ''https://b.example/b2''])"
proof -
  let ?cfg = "demo_cfg [demo_source_a, demo_source_b] (Some 2)"
  have "case main demo_ext ?cfg (Some demo_state_text) of
          Inl e \<Rightarrow> False
        | Inr r \<Rightarrow> map guid (handed_items r) = [''https://b.example/b2'', ''a1'']"
    by code_simp
  then obtain r where r: "main demo_ext ?cfg (Some demo_state_text) = Inr r"
    and handed: "map guid (handed_items r) = [''https://b.example/b2'', ''a1'']"
    by (cases "main demo_ext ?cfg (Some demo_state_text)") simp_all
  have loaded: "load_state demo_ext (Some demo_state_text) =
                  Inr \<lparr>seen_entry = Some [''https://b.example/b1'' \<mapsto> True], other_keys = []\<rparr>"
    by (simp add: load_state_def demo_ext_def)
  have kept: "map guid (kept_items [''https://b.example/b1'' \<mapsto> True]
                 (run_items demo_ext 0 [demo_source_a, demo_source_b])) =
              [''a1'', ''a2'', ''a3'', ''https://b.example/b2'']"
    by code_simp
  obtain st seen1 where st: "load_state demo_ext (Some demo_state_text) = Inr st"
    and seen1: "seen_entry (saved_state r) = Some seen1"
    and dom: "dom seen1 = dom (loaded_seen st)
                \<union> guid ` set (kept_items (loaded_seen st) (run_items demo_ext 0 (sources ?cfg)))"
    using persisted_seen_is_loaded_plus_kept [OF r] by blast
  have st_eq: "loaded_seen st = [''https://b.example/b1'' \<mapsto> True]"
    using st loaded by (auto simp: loaded_seen_def)
  have srcs: "sources ?cfg = [demo_source_a, demo_source_b]"
    by (simp add: demo_cfg_def)
  have "guid ` set (kept_items [''https://b.example/b1'' \<mapsto> True]
                 (run_items demo_ext 0 [demo_source_a, demo_source_b])) =
        set [''a1'', ''a2'', ''a3'', ''https://b.example/b2'']"
    unfolding kept [symmetric] by (simp only: set_map)
  then have d: "dom seen1 = dom [''https://b.example/b1'' \<mapsto> True]
                          \<union> set [''a1'', ''a2'', ''a3'', ''https://b.example/b2'']"
    using dom unfolding st_eq srcs by (simp only:)
  have e: "\<exists>seen1. seen_entry (saved_state r) = Some seen1
            \<and> dom seen1 = dom [''https://b.example/b1'' \<mapsto> True]
                          \<union> set [''a1'', ''a2'', ''a3'', ''https://b.example/b2'']"
    using seen1 d by (intro exI [of _ seen1] conjI)
  show ?thesis
    by (rule exI [of _ r]) (intro conjI r handed e)
qed


text \<open>
  Truncation when the sort is defined. When the dates of the collected items can be
  compared (no naive date beside an aware one) and the limit is not negative, the sort
  returns the stable sort of the items by descending date, and the pipeline hands its
  first \<open>limit\<close> items to the feed writer: \<open>min limit n\<close> items, each at least as
  recent as every item left out. A run whose kept items are this list hands exactly
  these items to \<open>build_feed\<close>, which writes them in this order. A configuration
  without "limit" has the limit 60.
\<close>

theorem truncation_keeps_most_recent:
  assumes "\<not> mixed_dates all_items" and "0 \<le> lim"
  shows "\<exists>sorted. sort_by_date all_items = Inr sorted
       \<and> mset sorted = mset all_items
       \<and> sorted_wrt (\<lambda>a b. utc_instant (date b) \<le> utc_instant (date a)) sorted
       \<and> (\<forall>t. filter (\<lambda>it. utc_instant (date it) = t) sorted =
                filter (\<lambda>it. utc_instant (date it) = t) all_items)
       \<and> sort_and_truncate all_items lim = Inr (take (nat lim) sorted)
       \<and> length (take (nat lim) sorted) = min (nat lim) (length all_items)
       \<and> (\<forall>k \<in> set (take (nat lim) sorted). \<forall>d \<in> set (drop (nat lim) sorted).
             utc_instant (date d) \<le> utc_instant (date k))
       \<and> (\<forall>x cfg file st.
             load_state x file = Inr st
             \<and> kept_items (loaded_seen st) (run_items x 0 (sources cfg)) = all_items
             \<and> cfg_limit cfg = lim
             \<longrightarrow> (\<exists>r. main x cfg file = Inr r \<and> handed_items r = take (nat lim) sorted
                       \<and> map fi_guid (feed_items (written_feed r)) =
                           map guid (take (nat lim) sorted)))
       \<and> (\<forall>cfg. limit cfg = None \<longrightarrow> cfg_limit cfg = 60)"
proof -
  let ?sorted = "sort_key (\<lambda>it. - utc_instant (date it)) all_items"
  have s: "sort_by_date all_items = Inr ?sorted"
    by (rule sort_by_date_Inr [OF assms(1)])
  have t: "sort_and_truncate all_items lim = Inr (take (nat lim) ?sorted)"
    using assms(2) by (simp add: sort_and_truncate_def s bindE_Inr slice_to_def)
  have m: "mset ?sorted = mset all_items"
    by simp
  have len: "length (take (nat lim) ?sorted) = min (nat lim) (length all_items)"
    by simp
  have cut: "\<forall>k \<in> set (take (nat lim) ?sorted). \<forall>d \<in> set (drop (nat lim) ?sorted).
             utc_instant (date d) \<le> utc_instant (date k)"
    by (rule sorted_wrt_take_drop [OF sorted_by_date_desc])
  have run: "\<forall>x cfg file st.
             load_state x file = Inr st
             \<and> kept_items (loaded_seen st) (run_items x 0 (sources cfg)) = all_items
             \<and> cfg_limit cfg = lim
             \<longrightarrow> (\<exists>r. main x cfg file = Inr r \<and> handed_items r = take (nat lim) ?sorted
                       \<and> map fi_guid (feed_items (written_feed r)) =
                           map guid (take (nat lim) ?sorted))"
  proof (intro allI impI)
    fix x cfg content st
    assume h: "load_state x content = Inr st
             \<and> kept_items (loaded_seen st) (run_items x 0 (sources cfg)) = all_items
             \<and> cfg_limit cfg = lim"
    then have ld: "load_state x content = Inr st" by blast
    show "\<exists>r. main x cfg content = Inr r \<and> handed_items r = take (nat lim) ?sorted
                       \<and> map fi_guid (feed_items (written_feed r)) =
                           map guid (take (nat lim) ?sorted)"
      using h t by (simp add: main_unfold [OF ld] build_feed_def comp_def)
  qed
  have dflt: "\<forall>cfg. limit cfg = None \<longrightarrow> cfg_limit cfg = 60"
    by (simp add: cfg_limit_def)
  show ?thesis
    using s m sorted_by_date_desc [of all_items] sort_by_date_stable [of _ all_items] t len cut run dflt
    by (intro exI [of _ ?sorted]) blast
qed



theorem truncation_keeps_most_recent_witness:
  "\<not> mixed_dates (kept_items [''https://b.example/b1'' \<mapsto> True]
                     (run_items demo_ext 0 [demo_source_a, demo_source_b]))
   \<and> (0::int) \<le> 3
   \<and> map_sum id (map guid)
        (sort_and_truncate (kept_items [''https://b.example/b1'' \<mapsto> True]
                              (run_items demo_ext 0 [demo_source_a, demo_source_b])) 3) =
       Inr [''https://b.example/b2'', ''a1'', ''a2'']
   \<and> (\<exists>sorted r.
         sort_and_truncate (kept_items [''https://b.example/b1'' \<mapsto> True]
                              (run_items demo_ext 0 [demo_source_a, demo_source_b])) 3 =
           Inr (take (nat 3) sorted)
         \<and> length (take (nat 3) sorted) = 3
         \<and> main demo_ext (demo_cfg [demo_source_a, demo_source_b] (Some 3)) (Some demo_state_text) = Inr r
         \<and> handed_items r = take (nat 3) sorted)
   \<and> limit (demo_cfg [demo_source_a] None) = None
   \<and> cfg_limit (demo_cfg [demo_source_a] None) = 60"
proof -
  let ?seen = "[''https://b.example/b1'' \<mapsto> True]"
  let ?st = "\<lparr>seen_entry = Some ?seen, other_keys = []\<rparr>"
  let ?cfg = "demo_cfg [demo_source_a, demo_source_b] (Some 3)"
  let ?items = "kept_items ?seen (run_items demo_ext 0 [demo_source_a, demo_source_b])"
  have comparable: "\<not> mixed_dates ?items"
    by code_simp
  have lim: "(0::int) \<le> 3"
    by simp
  have len: "length ?items = 4"
    by code_simp
  have out: "map_sum id (map guid) (sort_and_truncate ?items 3) =
       Inr [''https://b.example/b2'', ''a1'', ''a2'']"
    by code_simp
  have loaded: "load_state demo_ext (Some demo_state_text) = Inr ?st"
    by (simp add: load_state_def demo_ext_def)
  have kept: "kept_items (loaded_seen ?st) (run_items demo_ext 0 (sources ?cfg)) = ?items"
    by (simp add: loaded_seen_def demo_cfg_def)
  have cl: "cfg_limit ?cfg = 3"
    by (simp add: cfg_limit_def demo_cfg_def)
  obtain sorted where t: "sort_and_truncate ?items 3 = Inr (take (nat 3) sorted)"
    and l: "length (take (nat 3) sorted) = min (nat 3) (length ?items)"
    and run: "\<forall>x cfg file st.
             load_state x file = Inr st
             \<and> kept_items (loaded_seen st) (run_items x 0 (sources cfg)) = ?items
             \<and> cfg_limit cfg = 3
             \<longrightarrow> (\<exists>r. main x cfg file = Inr r \<and> handed_items r = take (nat 3) sorted
                       \<and> map fi_guid (feed_items (written_feed r)) =
                           map guid (take (nat 3) sorted))"
    and dflt: "\<forall>cfg. limit cfg = None \<longrightarrow> cfg_limit cfg = 60"
    using truncation_keeps_most_recent [OF comparable lim] by (elim exE conjE)
  have no_limit: "limit (demo_cfg [demo_source_a] None) = None"
    by (simp add: demo_cfg_def)
  have sixty: "cfg_limit (demo_cfg [demo_source_a] None) = 60"
    by (rule dflt [rule_format, OF no_limit])
  have l3: "length (take (nat 3) sorted) = 3"
    unfolding l len by simp
  have "\<exists>r. main demo_ext ?cfg (Some demo_state_text) = Inr r
           \<and> handed_items r = take (nat 3) sorted
           \<and> map fi_guid (feed_items (written_feed r)) = map guid (take (nat 3) sorted)"
    by (rule run [rule_format, of demo_ext "Some demo_state_text" ?st ?cfg])
       (intro conjI loaded kept cl)
  then obtain r where r: "main demo_ext ?cfg (Some demo_state_text) = Inr r"
    and h: "handed_items r = take (nat 3) sorted"
    by (elim exE conjE)
  have e: "\<exists>sorted r. sort_and_truncate ?items 3 = Inr (take (nat 3) sorted)
         \<and> length (take (nat 3) sorted) = 3
         \<and> main demo_ext ?cfg (Some demo_state_text) = Inr r
         \<and> handed_items r = take (nat 3) sorted"
    by (intro exI [of _ sorted] exI [of _ r] conjI t l3 r h)
  show ?thesis
    by (intro conjI comparable lim out e no_limit sixty)
qed


text \<open>
  Claim C5. The feed A dates its entries with a zone and the page B, read by the
  tolerant parser from the text of its date elements, without one: the collected list
  holds three aware and two naive dates. The sort of line 194 raises \<open>TypeError\<close>
  outside any \<open>try\<close>, so with the limit 2 the pipeline hands no item to the feed
  writer, where the claim promises the two most recent ones. This is the defect of
  claim C2 (dates are stored as parsed, naive or aware), met at the truncation.
\<close>

theorem mixed_dates_leave_nothing_to_truncate:
  "map (\<lambda>it. tzinfo (date it))
     (kept_items Map.empty (run_items demo_ext 0 [demo_source_a, demo_source_t])) =
     [Some 0, Some 0, Some 0, None, None]
   \<and> sort_and_truncate
        (kept_items Map.empty (run_items demo_ext 0 [demo_source_a, demo_source_t])) 2 =
       Inl naive_aware_error
   \<and> map_sum id (map guid \<circ> handed_items)
        (main demo_ext (demo_cfg [demo_source_a, demo_source_t] (Some 2)) None) =
       Inl naive_aware_error"
  by code_simp

text \<open>
  Claim C6. An HTML source without \<open>list_selector\<close> (absent or empty): \<open>parse_html\<close>
  raises before it selects any block, \<open>ValueError\<close> "Missing list_selector for HTML
  source" once the page is fetched (the request comes first in \<open>parse_html\<close>, so a
  failed request raises its own error instead). The source contributes no item,
  \<open>seen\<close> and \<open>all_items\<close> stay as they are, one warning line with the name of the
  source is printed, and the loop goes on with the next source. With such a source
  first, a run succeeds whenever the state loads and the sort of the other sources'
  kept items is defined, and its feed and saved state are those of the other sources.
\<close>

theorem missing_list_selector_fails_source:
  assumes "src_type src = Some ''html''" and "\<not> truthy (list_selector src)"
  shows "\<exists>e. e = (case fetch x (src_url src) of
                    Inl err \<Rightarrow> err
                  | Inr text \<Rightarrow> ValueError ''Missing list_selector for HTML source'')
       \<and> parse_html x i (src_url src) src = Inl e
       \<and> source_items x i src = []
       \<and> process_source x i src st = (st, [warn_line (source_name src) (src_url src) e])
       \<and> run_sources x i (src # rest) st =
           (case run_sources x (Suc i) rest st of
              (st2, printed) \<Rightarrow> (st2, warn_line (source_name src) (src_url src) e # printed))
       \<and> (\<forall>content loaded out.
             load_state x content = Inr loaded
             \<and> sort_and_truncate (kept_items (loaded_seen loaded) (run_items x (Suc 0) rest))
                  (cfg_limit cfg) = Inr out
             \<longrightarrow> (\<exists>r. main x (cfg\<lparr>sources := src # rest\<rparr>) content = Inr r
                       \<and> handed_items r = out
                       \<and> stderr r = warn_line (source_name src) (src_url src) e
                                      # snd (run_sources x (Suc 0) rest (loaded_seen loaded, []))
                       \<and> seen_entry (saved_state r) =
                           Some (fst (dedup (loaded_seen loaded) [] (run_items x (Suc 0) rest)))))"
proof -
  let ?e = "case fetch x (src_url src) of
              Inl err \<Rightarrow> err
            | Inr text \<Rightarrow> ValueError ''Missing list_selector for HTML source''"
  let ?line = "warn_line (source_name src) (src_url src) ?e"
  have not_rss: "src_type src \<noteq> Some ''rss''"
    using assms(1) by simp
  have fails: "\<And>k. parse_html x k (src_url src) src = Inl ?e"
    by (rule parse_html_no_list_selector [OF assms(2)])
  have none: "source_items x i src = []"
    using not_rss assms(1) by (simp add: source_items_def fails)
  have step: "\<And>k s. process_source x k src s = (s, [?line])"
    using not_rss assms(1) by (simp add: process_source_def fails Let_def)
  have loop: "run_sources x i (src # rest) st =
           (case run_sources x (Suc i) rest st of (st2, printed) \<Rightarrow> (st2, ?line # printed))"
    by (rule run_sources_silent_head [OF step])
  have run: "\<forall>content loaded out.
             load_state x content = Inr loaded
             \<and> sort_and_truncate (kept_items (loaded_seen loaded) (run_items x (Suc 0) rest))
                  (cfg_limit cfg) = Inr out
             \<longrightarrow> (\<exists>r. main x (cfg\<lparr>sources := src # rest\<rparr>) content = Inr r
                       \<and> handed_items r = out
                       \<and> stderr r = ?line # snd (run_sources x (Suc 0) rest (loaded_seen loaded, []))
                       \<and> seen_entry (saved_state r) =
                           Some (fst (dedup (loaded_seen loaded) [] (run_items x (Suc 0) rest))))"
  proof (intro allI impI)
    fix content loaded out
    assume h: "load_state x content = Inr loaded
             \<and> sort_and_truncate (kept_items (loaded_seen loaded) (run_items x (Suc 0) rest))
                  (cfg_limit cfg) = Inr out"
    show "\<exists>r. main x (cfg\<lparr>sources := src # rest\<rparr>) content = Inr r
                       \<and> handed_items r = out
                       \<and> stderr r = ?line # snd (run_sources x (Suc 0) rest (loaded_seen loaded, []))
                       \<and> seen_entry (saved_state r) =
                           Some (fst (dedup (loaded_seen loaded) [] (run_items x (Suc 0) rest)))"
      using main_silent_head [OF step conjunct1 [OF h] conjunct2 [OF h]] by simp
  qed
  show ?thesis
    using fails [of i] none step [of i st] loop run by (intro exI [of _ ?e] conjI) simp_all
qed

theorem missing_list_selector_fails_source_witness:
  "src_type (demo_source_b\<lparr>list_selector := None\<rparr>) = Some ''html''
   \<and> \<not> truthy (list_selector (demo_source_b\<lparr>list_selector := None\<rparr>))
   \<and> parse_html demo_ext 0 (src_url (demo_source_b\<lparr>list_selector := None\<rparr>))
         (demo_source_b\<lparr>list_selector := None\<rparr>) =
       Inl (ValueError ''Missing list_selector for HTML source'')
   \<and> (\<exists>r. main demo_ext
              ((demo_cfg [] (Some 3))\<lparr>sources := [demo_source_b\<lparr>list_selector := None\<rparr>, demo_source_a]\<rparr>)
              (Some demo_state_text) = Inr r
         \<and> map guid (handed_items r) = [''a1'', ''a2'', ''a3'']
         \<and> stderr r = [''[WARN] Failed to process B (https://b.example/news): Missing list_selector for HTML source''])"
proof -
  let ?bad = "demo_source_b\<lparr>list_selector := None\<rparr>"
  let ?st = "\<lparr>seen_entry = Some [''https://b.example/b1'' \<mapsto> True], other_keys = []\<rparr>"
  let ?cfg = "demo_cfg [] (Some 3)"
  have html: "src_type ?bad = Some ''html''"
    by (simp add: demo_source_b_def no_source_def)
  have lacks: "\<not> truthy (list_selector ?bad)"
    by (simp add: truthy_def)
  have fetched: "fetch demo_ext (src_url ?bad) = Inr ''page B''"
    by (simp add: fetch_def demo_ext_def demo_source_b_def no_source_def)
  have loaded: "load_state demo_ext (Some demo_state_text) = Inr ?st"
    by (simp add: load_state_def demo_ext_def)
  have "case sort_and_truncate (kept_items (loaded_seen ?st) (run_items demo_ext (Suc 0) [demo_source_a]))
               (cfg_limit ?cfg) of
          Inl e \<Rightarrow> False
        | Inr out \<Rightarrow> map guid out = [''a1'', ''a2'', ''a3'']"
    by code_simp
  then obtain out
    where out: "sort_and_truncate (kept_items (loaded_seen ?st) (run_items demo_ext (Suc 0) [demo_source_a]))
                  (cfg_limit ?cfg) = Inr out"
      and guids: "map guid out = [''a1'', ''a2'', ''a3'']"
    by (cases "sort_and_truncate (kept_items (loaded_seen ?st) (run_items demo_ext (Suc 0) [demo_source_a]))
                 (cfg_limit ?cfg)") simp_all
  have quiet: "snd (run_sources demo_ext (Suc 0) [demo_source_a] (loaded_seen ?st, [])) = []"
    by code_simp
  have line: "warn_line (source_name ?bad) (src_url ?bad)
                (ValueError ''Missing list_selector for HTML source'') =
              ''[WARN] Failed to process B (https://b.example/news): Missing list_selector for HTML source''"
    by code_simp
  obtain e where e: "e = (case fetch demo_ext (src_url ?bad) of
                            Inl err \<Rightarrow> err
                          | Inr text \<Rightarrow> ValueError ''Missing list_selector for HTML source'')"
    and fails: "parse_html demo_ext 0 (src_url ?bad) ?bad = Inl e"
    and run: "\<forall>content loaded out.
             load_state demo_ext content = Inr loaded
             \<and> sort_and_truncate (kept_items (loaded_seen loaded) (run_items demo_ext (Suc 0) [demo_source_a]))
                  (cfg_limit ?cfg) = Inr out
             \<longrightarrow> (\<exists>r. main demo_ext (?cfg\<lparr>sources := ?bad # [demo_source_a]\<rparr>) content = Inr r
                       \<and> handed_items r = out
                       \<and> stderr r = warn_line (source_name ?bad) (src_url ?bad) e
                                      # snd (run_sources demo_ext (Suc 0) [demo_source_a] (loaded_seen loaded, []))
                       \<and> seen_entry (saved_state r) =
                           Some (fst (dedup (loaded_seen loaded) [] (run_items demo_ext (Suc 0) [demo_source_a]))))"
    using missing_list_selector_fails_source [OF html lacks, of demo_ext 0 "(Map.empty, [])" "[demo_source_a]" ?cfg]
    by (elim exE conjE)
  have e_val: "e = ValueError ''Missing list_selector for HTML source''"
    unfolding e fetched by simp
  have "\<exists>r. main demo_ext (?cfg\<lparr>sources := ?bad # [demo_source_a]\<rparr>) (Some demo_state_text) = Inr r
           \<and> handed_items r = out
           \<and> stderr r = warn_line (source_name ?bad) (src_url ?bad) e
                          # snd (run_sources demo_ext (Suc 0) [demo_source_a] (loaded_seen ?st, []))
           \<and> seen_entry (saved_state r) =
               Some (fst (dedup (loaded_seen ?st) [] (run_items demo_ext (Suc 0) [demo_source_a])))"
    by (rule run [rule_format, of "Some demo_state_text" ?st out]) (intro conjI loaded out)
  then obtain r
    where r: "main demo_ext (?cfg\<lparr>sources := ?bad # [demo_source_a]\<rparr>) (Some demo_state_text) = Inr r"
      and handed: "handed_items r = out"
      and printed: "stderr r = warn_line (source_name ?bad) (src_url ?bad) e
                          # snd (run_sources demo_ext (Suc 0) [demo_source_a] (loaded_seen ?st, []))"
    by (elim exE conjE)
  have handed': "map guid (handed_items r) = [''a1'', ''a2'', ''a3'']"
    unfolding handed by (rule guids)
  have printed': "stderr r = [''[WARN] Failed to process B (https://b.example/news): Missing list_selector for HTML source'']"
    unfolding printed e_val quiet line by (rule refl)
  have ex: "\<exists>r. main demo_ext (?cfg\<lparr>sources := [?bad, demo_source_a]\<rparr>) (Some demo_state_text) = Inr r
         \<and> map guid (handed_items r) = [''a1'', ''a2'', ''a3'']
         \<and> stderr r = [''[WARN] Failed to process B (https://b.example/news): Missing list_selector for HTML source'']"
    by (intro exI [of _ r] conjI r handed' printed')
  have fails': "parse_html demo_ext 0 (src_url ?bad) ?bad =
                  Inl (ValueError ''Missing list_selector for HTML source'')"
    using fails unfolding e_val .
  show ?thesis
    by (intro conjI html lacks fails' ex)
qed

text \<open>
  Claim C10. A source whose type is neither "rss" nor "html" (or is absent): one skip
  line is printed, no item is contributed, \<open>seen\<close> and \<open>all_items\<close> stay as they are,
  and the loop goes on with the next source. With such a source first, a run succeeds
  whenever the state loads and the sort of the other sources' kept items is defined,
  and its feed and saved state are those of the other sources.
\<close>

theorem unknown_type_is_skipped:
  assumes "src_type src \<noteq> Some ''rss''" and "src_type src \<noteq> Some ''html''"
  shows "process_source x i src st = (st, [skip_line (source_name src) (src_type src)])
       \<and> source_items x i src = []
       \<and> run_sources x i (src # rest) st =
           (case run_sources x (Suc i) rest st of
              (st2, printed) \<Rightarrow> (st2, skip_line (source_name src) (src_type src) # printed))
       \<and> (\<forall>content loaded out.
             load_state x content = Inr loaded
             \<and> sort_and_truncate (kept_items (loaded_seen loaded) (run_items x (Suc 0) rest))
                  (cfg_limit cfg) = Inr out
             \<longrightarrow> (\<exists>r. main x (cfg\<lparr>sources := src # rest\<rparr>) content = Inr r
                       \<and> handed_items r = out
                       \<and> stderr r = skip_line (source_name src) (src_type src)
                                      # snd (run_sources x (Suc 0) rest (loaded_seen loaded, []))
                       \<and> seen_entry (saved_state r) =
                           Some (fst (dedup (loaded_seen loaded) [] (run_items x (Suc 0) rest)))))"
proof -
  let ?line = "skip_line (source_name src) (src_type src)"
  have none: "source_items x i src = []"
    using assms by (simp add: source_items_def)
  have step: "\<And>k s. process_source x k src s = (s, [?line])"
    using assms by (simp add: process_source_def Let_def)
  have loop: "run_sources x i (src # rest) st =
           (case run_sources x (Suc i) rest st of (st2, printed) \<Rightarrow> (st2, ?line # printed))"
    by (rule run_sources_silent_head [OF step])
  have run: "\<forall>content loaded out.
             load_state x content = Inr loaded
             \<and> sort_and_truncate (kept_items (loaded_seen loaded) (run_items x (Suc 0) rest))
                  (cfg_limit cfg) = Inr out
             \<longrightarrow> (\<exists>r. main x (cfg\<lparr>sources := src # rest\<rparr>) content = Inr r
                       \<and> handed_items r = out
                       \<and> stderr r = ?line # snd (run_sources x (Suc 0) rest (loaded_seen loaded, []))
                       \<and> seen_entry (saved_state r) =
                           Some (fst (dedup (loaded_seen loaded) [] (run_items x (Suc 0) rest))))"
  proof (intro allI impI)
    fix content loaded out
    assume h: "load_state x content = Inr loaded
             \<and> sort_and_truncate (kept_items (loaded_seen loaded) (run_items x (Suc 0) rest))
                  (cfg_limit cfg) = Inr out"
    show "\<exists>r. main x (cfg\<lparr>sources := src # rest\<rparr>) content = Inr r
                       \<and> handed_items r = out
                       \<and> stderr r = ?line # snd (run_sources x (Suc 0) rest (loaded_seen loaded, []))
                       \<and> seen_entry (saved_state r) =
                           Some (fst (dedup (loaded_seen loaded) [] (run_items x (Suc 0) rest)))"
      using main_silent_head [OF step conjunct1 [OF h] conjunct2 [OF h]] by simp
  qed
  show ?thesis
    using none step [of i st] loop run by (intro conjI) simp_all
qed

theorem unknown_type_is_skipped_witness:
  "src_type (no_source\<lparr>src_type := Some ''atom'', src_name := Some ''C''\<rparr>) \<noteq> Some ''rss''
   \<and> src_type (no_source\<lparr>src_type := Some ''atom'', src_name := Some ''C''\<rparr>) \<noteq> Some ''html''
   \<and> (\<exists>r. main demo_ext
              ((demo_cfg [] (Some 3))\<lparr>sources :=
                 [no_source\<lparr>src_type := Some ''atom'', src_name := Some ''C''\<rparr>, demo_source_a]\<rparr>)
              (Some demo_state_text) = Inr r
         \<and> map guid (handed_items r) = [''a1'', ''a2'', ''a3'']
         \<and> stderr r = [''Skipping C: unknown type '' @ [CHR 0x27] @ ''atom'' @ [CHR 0x27]])"
proof -
  let ?odd = "no_source\<lparr>src_type := Some ''atom'', src_name := Some ''C''\<rparr>"
  let ?st = "\<lparr>seen_entry = Some [''https://b.example/b1'' \<mapsto> True], other_keys = []\<rparr>"
  let ?cfg = "demo_cfg [] (Some 3)"
  have not_rss: "src_type ?odd \<noteq> Some ''rss''"
    by simp
  have not_html: "src_type ?odd \<noteq> Some ''html''"
    by simp
  have loaded: "load_state demo_ext (Some demo_state_text) = Inr ?st"
    by (simp add: load_state_def demo_ext_def)
  have "case sort_and_truncate (kept_items (loaded_seen ?st) (run_items demo_ext (Suc 0) [demo_source_a]))
               (cfg_limit ?cfg) of
          Inl e \<Rightarrow> False
        | Inr out \<Rightarrow> map guid out = [''a1'', ''a2'', ''a3'']"
    by code_simp
  then obtain out
    where out: "sort_and_truncate (kept_items (loaded_seen ?st) (run_items demo_ext (Suc 0) [demo_source_a]))
                  (cfg_limit ?cfg) = Inr out"
      and guids: "map guid out = [''a1'', ''a2'', ''a3'']"
    by (cases "sort_and_truncate (kept_items (loaded_seen ?st) (run_items demo_ext (Suc 0) [demo_source_a]))
                 (cfg_limit ?cfg)") simp_all
  have quiet: "snd (run_sources demo_ext (Suc 0) [demo_source_a] (loaded_seen ?st, [])) = []"
    by code_simp
  have line: "skip_line (source_name ?odd) (src_type ?odd) =
              ''Skipping C: unknown type '' @ [CHR 0x27] @ ''atom'' @ [CHR 0x27]"
    by code_simp
  have run: "\<forall>content loaded out.
             load_state demo_ext content = Inr loaded
             \<and> sort_and_truncate (kept_items (loaded_seen loaded) (run_items demo_ext (Suc 0) [demo_source_a]))
                  (cfg_limit ?cfg) = Inr out
             \<longrightarrow> (\<exists>r. main demo_ext (?cfg\<lparr>sources := ?odd # [demo_source_a]\<rparr>) content = Inr r
                       \<and> handed_items r = out
                       \<and> stderr r = skip_line (source_name ?odd) (src_type ?odd)
                                      # snd (run_sources demo_ext (Suc 0) [demo_source_a] (loaded_seen loaded, []))
                       \<and> seen_entry (saved_state r) =
                           Some (fst (dedup (loaded_seen loaded) [] (run_items demo_ext (Suc 0) [demo_source_a]))))"
    using unknown_type_is_skipped [OF not_rss not_html, of demo_ext 0 "(Map.empty, [])" "[demo_source_a]" ?cfg]
    by (elim conjE)
  have "\<exists>r. main demo_ext (?cfg\<lparr>sources := ?odd # [demo_source_a]\<rparr>) (Some demo_state_text) = Inr r
           \<and> handed_items r = out
           \<and> stderr r = skip_line (source_name ?odd) (src_type ?odd)
                          # snd (run_sources demo_ext (Suc 0) [demo_source_a] (loaded_seen ?st, []))
           \<and> seen_entry (saved_state r) =
               Some (fst (dedup (loaded_seen ?st) [] (run_items demo_ext (Suc 0) [demo_source_a])))"
    by (rule run [rule_format, of "Some demo_state_text" ?st out]) (intro conjI loaded out)
  then obtain r
    where r: "main demo_ext (?cfg\<lparr>sources := ?odd # [demo_source_a]\<rparr>) (Some demo_state_text) = Inr r"
      and handed: "handed_items r = out"
      and printed: "stderr r = skip_line (source_name ?odd) (src_type ?odd)
                          # snd (run_sources demo_ext (Suc 0) [demo_source_a] (loaded_seen ?st, []))"
    by (elim exE conjE)
  have handed': "map guid (handed_items r) = [''a1'', ''a2'', ''a3'']"
    unfolding handed by (rule guids)
  have printed': "stderr r = [''Skipping C: unknown type '' @ [CHR 0x27] @ ''atom'' @ [CHR 0x27]]"
    unfolding printed quiet line by (rule refl)
  have ex: "\<exists>r. main demo_ext (?cfg\<lparr>sources := [?odd, demo_source_a]\<rparr>) (Some demo_state_text) = Inr r
         \<and> map guid (handed_items r) = [''a1'', ''a2'', ''a3'']
         \<and> stderr r = [''Skipping C: unknown type '' @ [CHR 0x27] @ ''atom'' @ [CHR 0x27]]"
    by (intro exI [of _ r] conjI r handed' printed')
  show ?thesis
    by (intro conjI not_rss not_html ex)
qed



text \<open>
  Claim C7, as stated, fails. Source B is configured with the date format \<open>%Y-%m-%d\<close>
  and the date element of the block reads "Jan 5, 2024": \<open>strptime\<close> raises, the
  tolerant parser would return 5 January 2024 for the same text, and the item is dated
  with the current time all the same.
\<close>

theorem fixed_format_failure_skips_tolerant_parse:
  "date_format demo_source_f = Some ''%Y-%m-%d''
   \<and> html_date_text demo_source_f
         (Tag None ''time'' [(''datetime'', ''2024-01-04T00:00:00Z'')] [NavigableString ''Jan 5, 2024'']) =
       Some ''Jan 5, 2024''
   \<and> strptime demo_ext ''Jan 5, 2024'' ''%Y-%m-%d'' =
       Inl (strptime_error ''Jan 5, 2024'' ''%Y-%m-%d'')
   \<and> dateutil_parse demo_ext ''Jan 5, 2024'' = Inr \<lparr>wall = day 5, tzinfo = None\<rparr>
   \<and> map_sum id (map_option date)
         (html_block demo_ext (aware_utc 1730000060000000) (Some ''https://b.example/news'') demo_source_f
            (html_li ''B one'' ''b1'' ''2024-01-04T00:00:00Z'')) =
       Inr (Some \<lparr>wall = 1730000060000000, tzinfo = Some 0\<rparr>)"
  by code_simp

text \<open>
  Claim C7, amended. For a block of an HTML source with a configured \<open>date_format\<close>
  whose date text does not match the format, the tolerant parse is not attempted: the
  date is the current time. The block is not aborted because of the date: its outcome
  is that of resolving the link, and with the link resolved the block is emitted exactly
  when it has a title or a link, with the fields it would have with any other date.
\<close>

theorem fixed_format_failure_falls_back_to_now:
  assumes "truthy (date_format cfg)"
    and "select_opt x b (title_selector cfg) = Inr title_el"
    and "select_opt x b (link_selector cfg) = Inr link_el"
    and "select_opt x b (description_selector cfg) = Inr desc_el"
    and "select_opt x b (date_selector cfg) = Inr (Some date_el)"
    and "strptime x (the (html_date_text cfg date_el)) (the (date_format cfg)) = Inl err"
  shows "html_date x cfg (Some date_el) = None
       \<and> html_block x now url cfg b =
           bindE (html_link x url cfg link_el) (\<lambda>link.
             if \<not> (truthy (map_option (get_text '' '') title_el) \<or> truthy link)
             then Inr None
             else Inr (Some \<lparr>title = or_str (map_option (get_text '' '') title_el) ''(untitled)'',
                             link = or_str link [],
                             guid = or_str link
                                      (take 80 (or_str (map_option (get_text '' '') title_el) [])),
                             summary = (case desc_el of None \<Rightarrow> [] | Some t \<Rightarrow> get_text '' '' t),
                             date = now\<rparr>))"
proof -
  have d: "html_date x cfg (Some date_el) = None"
    by (rule html_date_strptime_fails [OF assms(1) assms(6)])
  have "html_block x now url cfg b =
           bindE (html_link x url cfg link_el) (\<lambda>link.
             if \<not> (truthy (map_option (get_text '' '') title_el) \<or> truthy link)
             then Inr None
             else Inr (Some \<lparr>title = or_str (map_option (get_text '' '') title_el) ''(untitled)'',
                             link = or_str link [],
                             guid = or_str link
                                      (take 80 (or_str (map_option (get_text '' '') title_el) [])),
                             summary = (case desc_el of None \<Rightarrow> [] | Some t \<Rightarrow> get_text '' '' t),
                             date = now\<rparr>))"
    by (cases "html_link x url cfg link_el")
       (simp_all add: html_block_def assms(2-5) bindE_Inr bindE_Inl d Let_def)
  then show ?thesis
    using d by (rule conjI [rotated])
qed

theorem fixed_format_failure_falls_back_to_now_witness:
  "truthy (date_format demo_source_f)
   \<and> strptime demo_ext
        (the (html_date_text demo_source_f
           (Tag None ''time'' [(''datetime'', ''2024-01-04T00:00:00Z'')] [NavigableString ''Jan 5, 2024''])))
        (the (date_format demo_source_f)) =
       Inl (strptime_error ''Jan 5, 2024'' ''%Y-%m-%d'')
   \<and> map_sum id (map_option guid)
        (html_block demo_ext (aware_utc 1730000060000000) (Some ''https://b.example/news'') demo_source_f
           (html_li ''B one'' ''b1'' ''2024-01-04T00:00:00Z'')) = Inr (Some ''https://b.example/b1'')
   \<and> map_sum id (map_option date)
        (html_block demo_ext (aware_utc 1730000060000000) (Some ''https://b.example/news'') demo_source_f
           (html_li ''B one'' ''b1'' ''2024-01-04T00:00:00Z'')) = Inr (Some (aware_utc 1730000060000000))"
proof -
  let ?b = "html_li ''B one'' ''b1'' ''2024-01-04T00:00:00Z''"
  let ?a = "Tag None ''a'' [(''href'', ''b1'')] [NavigableString ''B one'']"
  let ?t = "Tag None ''time'' [(''datetime'', ''2024-01-04T00:00:00Z'')] [NavigableString ''Jan 5, 2024'']"
  have fmt: "truthy (date_format demo_source_f)"
    by code_simp
  have t: "select_opt demo_ext ?b (title_selector demo_source_f) = Inr (Some ?a)"
    by code_simp
  have l: "select_opt demo_ext ?b (link_selector demo_source_f) = Inr (Some ?a)"
    by code_simp
  have s: "select_opt demo_ext ?b (description_selector demo_source_f) = Inr None"
    by code_simp
  have d: "select_opt demo_ext ?b (date_selector demo_source_f) = Inr (Some ?t)"
    by code_simp
  have f: "strptime demo_ext (the (html_date_text demo_source_f ?t)) (the (date_format demo_source_f)) =
             Inl (strptime_error ''Jan 5, 2024'' ''%Y-%m-%d'')"
    by code_simp
  have hl: "html_link demo_ext (Some ''https://b.example/news'') demo_source_f (Some ?a) =
              Inr (Some ''https://b.example/b1'')"
    by code_simp
  have kept: "truthy (Some ''https://b.example/b1'')"
    by code_simp
  have g: "or_str (Some ''https://b.example/b1'')
             (take 80 (or_str (map_option (get_text '' '') (Some ?a)) [])) = ''https://b.example/b1''"
    by code_simp
  have blk: "html_block demo_ext (aware_utc 1730000060000000) (Some ''https://b.example/news'') demo_source_f ?b =
           bindE (html_link demo_ext (Some ''https://b.example/news'') demo_source_f (Some ?a)) (\<lambda>link.
             if \<not> (truthy (map_option (get_text '' '') (Some ?a)) \<or> truthy link)
             then Inr None
             else Inr (Some \<lparr>title = or_str (map_option (get_text '' '') (Some ?a)) ''(untitled)'',
                             link = or_str link [],
                             guid = or_str link
                                      (take 80 (or_str (map_option (get_text '' '') (Some ?a)) [])),
                             summary = (case None of None \<Rightarrow> [] | Some t \<Rightarrow> get_text '' '' t),
                             date = aware_utc 1730000060000000\<rparr>))"
    using fixed_format_failure_falls_back_to_now [OF fmt t l s d f] by (rule conjunct2)
  have g': "map_sum id (map_option guid)
        (html_block demo_ext (aware_utc 1730000060000000) (Some ''https://b.example/news'') demo_source_f ?b) =
        Inr (Some ''https://b.example/b1'')"
    unfolding blk hl bindE_Inr using kept g by simp
  have d': "map_sum id (map_option date)
        (html_block demo_ext (aware_utc 1730000060000000) (Some ''https://b.example/news'') demo_source_f ?b) =
        Inr (Some (aware_utc 1730000060000000))"
    unfolding blk hl bindE_Inr using kept by simp
  show ?thesis
    by (intro conjI fmt f g' d')
qed

text \<open>
  Claim C8, as stated, fails. The first link element of the entry is the self link and
  the second the alternate one; the resolved link is the href of the first.
\<close>

theorem first_link_wins_over_alternate:
  "find demo_atom_entry [''link''] =
     Some (Tag None ''link'' [(''rel'', ''self''), (''href'', ''https://l.example/api/post.atom'')] [])
   \<and> find_rel demo_atom_entry ''link'' ''alternate'' =
     Some (Tag None ''link'' [(''rel'', ''alternate''), (''href'', ''https://l.example/post'')] [])
   \<and> link (rss_entry demo_ext (aware_utc 1730000000000000) demo_atom_entry) =
     ''https://l.example/api/post.atom''"
  by code_simp

text \<open>
  Claim C8, amended. The link of an entry is the href of its first link element; when
  that is absent or empty, the text of that element; and only when this is empty too,
  the href of the first link element with the alternate relation. An entry without a
  link element has the empty link.
\<close>

theorem link_is_first_link_element:
  "link (rss_entry x now e) =
     (case find e [''link''] of
        None \<Rightarrow> []
      | Some link_tag \<Rightarrow>
          if truthy (tag_get link_tag ''href'') then the (tag_get link_tag ''href'')
          else if get_text [] link_tag \<noteq> [] then get_text [] link_tag
          else (case find_rel e ''link'' ''alternate'' of
                  None \<Rightarrow> []
                | Some alt \<Rightarrow> or_str (tag_get alt ''href'') []))"
proof (cases "find e [''link'']")
  case None
  have "find_rel e ''link'' ''alternate'' = None"
    by (rule find_rel_None [OF None])
  then have "rss_link e = None"
    by (simp add: rss_link_def None truthy_def)
  then show ?thesis
    by (simp add: rss_entry_def Let_def None or_str_def)
next
  case (Some link_tag)
  let ?first = "py_or (tag_get link_tag ''href'') (Some (get_text [] link_tag))"
  have l: "rss_link e =
          (if \<not> truthy ?first
           then (case find_rel e ''link'' ''alternate'' of
                   None \<Rightarrow> ?first
                 | Some alt \<Rightarrow> if truthy (tag_get alt ''href'') then tag_get alt ''href'' else ?first)
           else ?first)"
    by (simp add: rss_link_def Some Let_def)
  have t: "truthy ?first = (truthy (tag_get link_tag ''href'') \<or> get_text [] link_tag \<noteq> [])"
    by (simp add: py_or_def truthy_def)
  have empty: "\<not> truthy ?first \<Longrightarrow> or_str ?first [] = []"
    using t by (simp add: or_str_py_or)
  have alt: "\<And>a. or_str (if truthy a then a else ?first) [] =
               (if truthy a then or_str a [] else or_str ?first [])"
    by simp
  have "link (rss_entry x now e) = or_str (rss_link e) []"
    by (simp add: rss_entry_def Let_def)
  also have "\<dots> =
          (if truthy (tag_get link_tag ''href'') then the (tag_get link_tag ''href'')
           else if get_text [] link_tag \<noteq> [] then get_text [] link_tag
           else (case find_rel e ''link'' ''alternate'' of
                   None \<Rightarrow> []
                 | Some alt \<Rightarrow> or_str (tag_get alt ''href'') []))"
  proof (cases "truthy ?first")
    case True
    then have "truthy (tag_get link_tag ''href'') \<or> get_text [] link_tag \<noteq> []"
      using t by simp
    then show ?thesis
      using True by (auto simp: l or_str_py_or)
  next
    case False
    then have no: "\<not> truthy (tag_get link_tag ''href'')" "get_text [] link_tag = []"
      using t by simp_all
    show ?thesis
    proof (cases "find_rel e ''link'' ''alternate''")
      case None
      then show ?thesis
        using False no empty by (simp add: l)
    next
      case (Some a)
      then show ?thesis
        using False no empty by (simp add: l or_str_def truthy_def split: option.splits)
    qed
  qed
  finally show ?thesis
    by (simp add: Some)
qed

theorem link_is_first_link_element_witness:
  "link (rss_entry demo_ext (aware_utc 1730000000000000) demo_atom_entry) = ''https://l.example/api/post.atom''
   \<and> link (rss_entry demo_ext (aware_utc 1730000000000000)
        (Tag None ''entry'' []
           [Tag None ''link'' [(''rel'', ''self'')] [],
            Tag None ''link'' [(''rel'', ''alternate''), (''href'', ''https://l.example/post'')] []])) =
       ''https://l.example/post''"
proof -
  let ?e2 = "Tag None ''entry'' []
           [Tag None ''link'' [(''rel'', ''self'')] [],
            Tag None ''link'' [(''rel'', ''alternate''), (''href'', ''https://l.example/post'')] []]"
  have f1: "find demo_atom_entry [''link''] =
     Some (Tag None ''link'' [(''rel'', ''self''), (''href'', ''https://l.example/api/post.atom'')] [])"
    by code_simp
  have f2: "find ?e2 [''link''] = Some (Tag None ''link'' [(''rel'', ''self'')] [])"
    by code_simp
  have r2: "find_rel ?e2 ''link'' ''alternate'' =
     Some (Tag None ''link'' [(''rel'', ''alternate''), (''href'', ''https://l.example/post'')] [])"
    by code_simp
  have t2: "get_text [] (Tag None ''link'' [(''rel'', ''self'')] []) = []"
    by code_simp
  have a: "link (rss_entry demo_ext (aware_utc 1730000000000000) demo_atom_entry) =
             ''https://l.example/api/post.atom''"
    unfolding link_is_first_link_element [of demo_ext "aware_utc 1730000000000000" demo_atom_entry] f1
    by (simp add: truthy_def)
  have b: "link (rss_entry demo_ext (aware_utc 1730000000000000) ?e2) = ''https://l.example/post''"
    unfolding link_is_first_link_element [of demo_ext "aware_utc 1730000000000000" ?e2] f2 r2
    by (simp add: truthy_def t2 or_str_def)
  show ?thesis
    by (intro conjI a b)
qed

text \<open>
  Claim C9, as stated, fails. The state file exists and is not JSON: \<open>json.load\<close>
  raises, nothing catches the exception, and the run ends with it.
\<close>

theorem corrupt_state_file_aborts_run:
  "load_state demo_ext (Some ''{not json'') = Inl (JSONDecodeError
         ''Expecting property name enclosed in double quotes: line 1 column 2 (char 1)'')
   \<and> main demo_ext (demo_cfg [demo_source_a] None) (Some ''{not json'') =
       Inl (JSONDecodeError
         ''Expecting property name enclosed in double quotes: line 1 column 2 (char 1)'')"
  by (simp add: load_state_def main_def bindE_def demo_ext_def demo_state_text_def)

text \<open>
  Claim C9, amended. When the state file exists and \<open>json.load\<close> raises on it,
  \<open>load_state\<close> raises the same exception and so does the run, before any source is
  read and before feed or state are written. Only a missing state file gives the empty
  seen set.
\<close>

theorem only_missing_state_file_is_empty_state:
  assumes "json_load x text = Inl e"
  shows "load_state x (Some text) = Inl e
       \<and> main x cfg (Some text) = Inl e
       \<and> load_state x None = Inr \<lparr>seen_entry = Some Map.empty, other_keys = []\<rparr>"
  using assms by (simp add: load_state_def main_def bindE_Inl)

theorem only_missing_state_file_is_empty_state_witness:
  "json_load demo_ext ''{not json'' = Inl (JSONDecodeError
         ''Expecting property name enclosed in double quotes: line 1 column 2 (char 1)'')
   \<and> main demo_ext (demo_cfg [demo_source_a] None) (Some ''{not json'') =
       Inl (JSONDecodeError
         ''Expecting property name enclosed in double quotes: line 1 column 2 (char 1)'')
   \<and> load_state demo_ext None = Inr \<lparr>seen_entry = Some Map.empty, other_keys = []\<rparr>"
proof -
  have bad: "json_load demo_ext ''{not json'' = Inl (JSONDecodeError
         ''Expecting property name enclosed in double quotes: line 1 column 2 (char 1)'')"
    by (simp add: demo_ext_def demo_state_text_def)
  show ?thesis
    using only_missing_state_file_is_empty_state [OF bad, of "demo_cfg [demo_source_a] None"] bad
    by (intro conjI) simp_all
qed

text \<open>
  Claim C2. The feed N has an entry whose date text has no zone, which the tolerant
  parser returns as a naive value, and an entry without date, which gets the aware
  current time. \<open>parse_rss\<close> returns both as they are, the two dates cannot be
  compared, and the sort of \<open>main\<close> ends the run with \<open>TypeError\<close>. Only \<open>rfc822\<close>,
  when the feed is written, reads a naive date as UTC (\<open>rfc822_naive_is_utc\<close>).
\<close>

theorem naive_date_beside_aware_date_aborts_run:
  "map guid (parse_rss demo_ext 0 ''feed N'') = [''n1'', ''n2'']
   \<and> map date (parse_rss demo_ext 0 ''feed N'') =
       [\<lparr>wall = day 2, tzinfo = None\<rparr>, \<lparr>wall = 1730000000001000, tzinfo = Some 0\<rparr>]
   \<and> dt_less \<lparr>wall = day 2, tzinfo = None\<rparr> \<lparr>wall = 1730000000001000, tzinfo = Some 0\<rparr> =
       Inl naive_aware_error
   \<and> map_sum id (map guid \<circ> handed_items) (main demo_ext (demo_cfg [demo_source_n] None) None) =
       Inl naive_aware_error"
  by code_simp

text \<open>
  Claim C3. An entry with neither id, guid, link nor title: the identifier falls back
  to the first 80 characters of the title that was read, which is empty, and not to the
  placeholder of the title field; the item is emitted with the empty identifier. The
  chain of the code is: the text of the id element, or of the guid element when the
  entry has no id element (an empty id element hides the guid element); the link; the
  first 80 characters of the title (\<open>rss_guid_priority\<close>). The identifier is empty
  exactly when all three are (\<open>rss_guid_empty_iff\<close>). An item of an HTML source never
  has an empty identifier (\<open>html_guid_nonempty\<close>).
\<close>

theorem entry_without_id_link_title_has_empty_guid:
  "rss_entry demo_ext (aware_utc 1730000000000000) demo_bare_entry =
     \<lparr>title = ''(untitled)'', link = [], guid = [], summary = ''text only'',
      date = \<lparr>wall = 1730000000000000, tzinfo = Some 0\<rparr>\<rparr>"
  by code_simp


end
